theory Spec2Isabelle
  imports
    Complex_Main
    "HOL-Library.Char_ord"
    "HOL-Library.List_Lexorder"
    "HOL-Library.Product_Lexorder"
    "HOL-Library.Multiset"
begin

section \<open>RFM customer segmentation of the Olist dashboard\<close>

text \<open>
  A shallow embedding of the RFM section of \<^verbatim>\<open>src/dashboard/streamlit.py\<close>
  (lines 73--79 and 256--394). A pandas data frame is a list of rows (a
  \<^theory_text>\<open>record\<close> per frame), a column operation is a function over that list.
  Floating-point columns are exact rationals; a value that pandas represents as
  \<^verbatim>\<open>NaN\<close>, \<^verbatim>\<open>NaT\<close> or an infinity is \<open>None\<close>, also a missing cell of
  an input table. Rounding error of binary floating point is not modelled. An exception
  of the source is the left summand of a result \<open>error + 'a\<close>.

  Definitions keep the names of the source. Where two frames have a column of the same
  name the field carries a prefix for its frame (\<open>oi_\<close> for \<^verbatim>\<open>df_order_items_\<close>,
  \<open>m_\<close> for the merged frame, \<open>do_\<close> for \<^verbatim>\<open>data_orders\<close>, \<open>rfm_\<close> for
  \<^verbatim>\<open>df_rfm\<close>, \<open>s_\<close> for the summary), and the column \<^verbatim>\<open>Cumulative_%\<close> is
  the field \<open>Cumulative_pct\<close>.

  \<^verbatim>\<open>sort_values\<close> is modelled by the stable \<open>sort_key\<close>, descending order by
  the negated key. pandas leaves the order of rows with equal keys open; no result
  below depends on it.
\<close>

subsection \<open>Exceptions and column types\<close>

text \<open>
  The exceptions the RFM section can raise, and the two element types a price column
  can have: \<^verbatim>\<open>read_csv\<close> gives \<^verbatim>\<open>float64\<close> to a numeric column with at least
  one row and \<^verbatim>\<open>object\<close> to the column of a table without rows.
\<close>

datatype error = OutOfBoundsDatetime | TypeError | ZeroDivisionError

datatype dtype = float64 | object_dtype

text \<open>
  \<^verbatim>\<open>Series.apply\<close> calls the function row by row; the first exception ends the
  call.
\<close>

fun apply_rows :: "('a \<Rightarrow> error + 'b) \<Rightarrow> 'a list \<Rightarrow> error + 'b list" where
  "apply_rows f [] = Inr []"
| "apply_rows f (x # xs) =
     (case f x of Inl e \<Rightarrow> Inl e
      | Inr y \<Rightarrow> (case apply_rows f xs of Inl e \<Rightarrow> Inl e | Inr ys \<Rightarrow> Inr (y # ys)))"

subsection \<open>Series and group-by helpers\<close>

text \<open>
  \<^verbatim>\<open>Series.max()\<close> and \<^verbatim>\<open>Series.min()\<close> skip missing entries and are
  \<^verbatim>\<open>NaN\<close>/\<^verbatim>\<open>NaT\<close> on a series with no entry left.
\<close>

definition present :: "'a option list \<Rightarrow> 'a list" where
  "present xs = concat (map (\<lambda>x. case x of None \<Rightarrow> [] | Some y \<Rightarrow> [y]) xs)"

fun series_max :: "'a::linorder list \<Rightarrow> 'a option" where
  "series_max [] = None"
| "series_max (x # xs) = Some (fold max xs x)"

fun series_min :: "'a::linorder list \<Rightarrow> 'a option" where
  "series_min [] = None"
| "series_min (x # xs) = Some (fold min xs x)"

text \<open>\<^verbatim>\<open>Series.fillna(v)\<close>, entry by entry.\<close>

definition fillna :: "'a \<Rightarrow> 'a option \<Rightarrow> 'a" where
  "fillna v x = (case x of None \<Rightarrow> v | Some y \<Rightarrow> y)"

text \<open>
  \<^verbatim>\<open>groupby(by=...)\<close> lists one group per distinct key, the keys in ascending
  order; a group holds the rows of that key.
\<close>

definition group_keys :: "('a \<Rightarrow> 'k::linorder) \<Rightarrow> 'a list \<Rightarrow> 'k list" where
  "group_keys key rows = sort (remdups (map key rows))"

definition group_rows :: "('a \<Rightarrow> 'k) \<Rightarrow> 'a list \<Rightarrow> 'k \<Rightarrow> 'a list" where
  "group_rows key rows k = filter (\<lambda>r. key r = k) rows"

text \<open>
  A grouping key that may be missing: \<^verbatim>\<open>groupby\<close> drops the rows without a key
  (\<^verbatim>\<open>dropna=True\<close> is the default).
\<close>

definition group_keys_dropna :: "('a \<Rightarrow> 'k::linorder option) \<Rightarrow> 'a list \<Rightarrow> 'k list" where
  "group_keys_dropna key rows = sort (remdups (present (map key rows)))"

definition group_rows_dropna :: "('a \<Rightarrow> 'k option) \<Rightarrow> 'a list \<Rightarrow> 'k \<Rightarrow> 'a list" where
  "group_rows_dropna key rows k = filter (\<lambda>r. key r = Some k) rows"

text \<open>
  Division of two float columns: numpy does not raise on a zero divisor, the quotient
  is \<^verbatim>\<open>NaN\<close> or an infinity, which the model writes \<open>None\<close>.
\<close>

definition np_div :: "rat \<Rightarrow> rat \<Rightarrow> rat option" where
  "np_div x y = (if y = 0 then None else Some (x / y))"

text \<open>
  \<^verbatim>\<open>round(series, 2)\<close> is numpy's \<^verbatim>\<open>rint(x * 10 ** d) / 10 ** d\<close>, and
  \<^verbatim>\<open>rint\<close> rounds a half to the even neighbour.
\<close>

definition rint :: "rat \<Rightarrow> int" where
  "rint x =
     (let f = \<lfloor>x\<rfloor>; d = x - of_int f
      in if d < 1 / 2 then f else if d > 1 / 2 then f + 1 else if even f then f else f + 1)"

definition np_round :: "rat \<Rightarrow> nat \<Rightarrow> rat" where
  "np_round x d = of_int (rint (x * 10 ^ d)) / 10 ^ d"

text \<open>\<^verbatim>\<open>Series.cumsum()\<close>.\<close>

fun cumsum_from :: "rat \<Rightarrow> rat list \<Rightarrow> rat list" where
  "cumsum_from acc [] = []"
| "cumsum_from acc (x # xs) = (acc + x) # cumsum_from (acc + x) xs"

definition cumsum :: "rat list \<Rightarrow> rat list" where
  "cumsum xs = cumsum_from 0 xs"

text \<open>
  \<^verbatim>\<open>Series.quantile(q)\<close> with the default linear interpolation: on the sorted
  values \<open>s\<close> of length \<open>n\<close> the position is \<open>h = (n - 1) * q\<close>, and the
  result lies the fraction of \<open>h\<close> of the way from \<open>s[floor h]\<close> to its right
  neighbour. An empty series gives \<^verbatim>\<open>NaN\<close>.
\<close>

definition quantile :: "rat list \<Rightarrow> rat \<Rightarrow> rat option" where
  "quantile xs q =
     (if xs = [] then None
      else
        let s = sort xs; n = length xs; h = of_nat (n - 1) * q;
            lo = nat \<lfloor>h\<rfloor>; hi = min (lo + 1) (n - 1); g = h - of_int \<lfloor>h\<rfloor>
        in Some (s ! lo + (s ! hi - s ! lo) * g))"

text \<open>Python's \<^verbatim>\<open>str\<close> of an integer, which \<^verbatim>\<open>astype(str)\<close> applies.\<close>

definition digit_char :: "nat \<Rightarrow> char" where
  "digit_char d = ''0123456789'' ! d"

fun str_nat :: "nat \<Rightarrow> string" where
  "str_nat n = (if n < 10 then [digit_char n] else str_nat (n div 10) @ [digit_char (n mod 10)])"

definition str_int :: "int \<Rightarrow> string" where
  "str_int i = (if i < 0 then CHR ''-'' # str_nat (nat (- i)) else str_nat (nat i))"

subsection \<open>Input tables\<close>

text \<open>
  The columns of \<^verbatim>\<open>filtered_orders\<close> and \<^verbatim>\<open>df_order_items\<close> that the RFM
  section reads; every cell may be missing. A timestamp counts nanoseconds in a signed
  64-bit integer, whose smallest value is reserved for \<^verbatim>\<open>NaT\<close>: the timestamps
  and the time differences pandas can represent lie between \<open>- Timestamp_max\<close> and
  \<open>Timestamp_max\<close>.
\<close>

record order_row =
  order_id :: "string option"
  customer_id :: "string option"
  order_status :: "string option"
  order_purchase_timestamp :: "int option"

record item_row =
  item_order_id :: "string option"
  product_id :: "string option"
  shipping_limit_date :: "int option"
  price :: "rat option"
  freight_value :: "rat option"

definition price_dtype :: "item_row list \<Rightarrow> dtype" where
  "price_dtype df_order_items = (if df_order_items = [] then object_dtype else float64)"

definition Timedelta_days_1 :: int where
  "Timedelta_days_1 = 86400000000000"

definition Timestamp_max :: int where
  "Timestamp_max = 9223372036854775807"

text \<open>
  The result of adding or subtracting nanosecond values: outside the 64-bit range the
  operation raises, the reserved smallest value reads as \<^verbatim>\<open>NaT\<close>.
\<close>

definition int64_value :: "int \<Rightarrow> error + int option" where
  "int64_value v =
     (if v < - Timestamp_max - 1 \<or> Timestamp_max < v then Inl OutOfBoundsDatetime
      else if v = - Timestamp_max - 1 then Inr None
      else Inr (Some v))"

subsection \<open>Order items per order and product (lines 73--79)\<close>

text \<open>Line 73: the sum of two cells is missing when one of them is.\<close>

definition total_value :: "item_row \<Rightarrow> rat option" where
  "total_value i =
     (case price i of None \<Rightarrow> None
      | Some p \<Rightarrow> (case freight_value i of None \<Rightarrow> None | Some f \<Rightarrow> Some (p + f)))"

record items_row =
  oi_order_id :: string
  oi_product_id :: string
  oi_shipping_limit_date :: int
  product_counts :: nat
  oi_total_price :: rat
  oi_total_value :: rat

text \<open>
  The grouping key of line 75. An item row without \<^verbatim>\<open>order_id\<close>,
  \<^verbatim>\<open>product_id\<close> or \<^verbatim>\<open>shipping_limit_date\<close> has no key and is in no group.
\<close>

definition items_key :: "item_row \<Rightarrow> (string \<times> string \<times> int) option" where
  "items_key i =
     (case item_order_id i of None \<Rightarrow> None
      | Some ord \<Rightarrow> (case product_id i of None \<Rightarrow> None
      | Some p \<Rightarrow> (case shipping_limit_date i of None \<Rightarrow> None
      | Some s \<Rightarrow> Some (ord, p, s))))"

text \<open>
  The frame the source names \<^verbatim>\<open>df_order_items_\<close>. \<^verbatim>\<open>count\<close> counts the
  present cells of \<^verbatim>\<open>product_id\<close>, which every row of a group has; \<^verbatim>\<open>sum\<close>
  skips missing cells.
\<close>

definition df_order_items_agg :: "item_row list \<Rightarrow> items_row list" where
  "df_order_items_agg df_order_items =
     map (\<lambda>k. let g = group_rows_dropna items_key df_order_items k in
            \<lparr>oi_order_id = fst k, oi_product_id = fst (snd k),
             oi_shipping_limit_date = snd (snd k),
             product_counts = length (present (map product_id g)),
             oi_total_price = sum_list (present (map price g)),
             oi_total_value = sum_list (present (map total_value g))\<rparr>)
       (group_keys_dropna items_key df_order_items)"

subsection \<open>Order aggregation per customer (lines 256--267)\<close>

text \<open>
  The left merge keeps an order that has no item row, with \<^verbatim>\<open>NaN\<close> in the item
  columns. The query keeps the rows whose status is present and equal to
  \<open>delivered\<close>; the grouping drops the rows without \<^verbatim>\<open>customer_id\<close>;
  \<^verbatim>\<open>nunique\<close> and \<^verbatim>\<open>sum\<close> skip missing cells.
\<close>

record merged_row =
  m_order_id :: "string option"
  m_customer_id :: "string option"
  m_order_status :: "string option"
  m_order_purchase_timestamp :: "int option"
  m_total_price :: "rat option"
  m_total_value :: "rat option"

definition merged_of :: "order_row \<Rightarrow> items_row option \<Rightarrow> merged_row" where
  "merged_of ord g =
     \<lparr>m_order_id = order_id ord, m_customer_id = customer_id ord,
      m_order_status = order_status ord,
      m_order_purchase_timestamp = order_purchase_timestamp ord,
      m_total_price = map_option oi_total_price g,
      m_total_value = map_option oi_total_value g\<rparr>"

text \<open>The rows one order contributes: one per matching item row, or one unmatched row.\<close>

definition merge_rows :: "order_row \<Rightarrow> items_row list \<Rightarrow> merged_row list" where
  "merge_rows ord items =
     (let ms = filter (\<lambda>g. Some (oi_order_id g) = order_id ord) items
      in if ms = [] then [merged_of ord None] else map (\<lambda>g. merged_of ord (Some g)) ms)"

definition merge_left :: "order_row list \<Rightarrow> items_row list \<Rightarrow> merged_row list" where
  "merge_left orders items = concat (map (\<lambda>ord. merge_rows ord items) orders)"

record data_orders_row =
  do_customer_id :: string
  last_purchase_date :: "int option"
  order_count :: nat
  total_price :: rat

definition data_orders :: "order_row list \<Rightarrow> item_row list \<Rightarrow> data_orders_row list" where
  "data_orders filtered_orders df_order_items =
     (let merged = merge_left filtered_orders (df_order_items_agg df_order_items);
          delivered = filter (\<lambda>m. m_order_status m = Some ''delivered'') merged;
          grouped =
            map (\<lambda>c. let g = group_rows_dropna m_customer_id delivered c in
                  \<lparr>do_customer_id = c,
                   last_purchase_date = series_max (present (map m_order_purchase_timestamp g)),
                   order_count = length (remdups (present (map m_order_id g))),
                   total_price = sum_list (present (map m_total_price g))\<rparr>)
              (group_keys_dropna m_customer_id delivered)
      in sort_key (\<lambda>r. - int (order_count r)) grouped)"

subsection \<open>Recency (lines 270--274)\<close>

text \<open>\<^verbatim>\<open>sort_values\<close> puts missing dates last.\<close>

definition na_last :: "int option \<Rightarrow> nat \<times> int" where
  "na_last d = (case d of None \<Rightarrow> (1, 0) | Some t \<Rightarrow> (0, t))"

text \<open>
  Line 273: the latest date plus one day, \<^verbatim>\<open>NaT\<close> when no date is present. The
  addition raises when the sum is no 64-bit nanosecond value.
\<close>

definition recency_date :: "data_orders_row list \<Rightarrow> error + int option" where
  "recency_date rows =
     (case series_max (present (map last_purchase_date rows)) of
        None \<Rightarrow> Inr None
      | Some t \<Rightarrow> int64_value (t + Timedelta_days_1))"

text \<open>
  \<^verbatim>\<open>(recency_date - x).days\<close>: the difference of two timestamps raises when it is no
  64-bit nanosecond value; the day count of a time difference is its floor in days;
  with \<^verbatim>\<open>NaT\<close> on either side it is \<^verbatim>\<open>NaN\<close>.
\<close>

definition days :: "int option \<Rightarrow> int option \<Rightarrow> error + int option" where
  "days anchor x =
     (case anchor of None \<Rightarrow> Inr None
      | Some a \<Rightarrow>
          (case x of None \<Rightarrow> Inr None
           | Some t \<Rightarrow>
               (case int64_value (a - t) of Inl e \<Rightarrow> Inl e
                | Inr v \<Rightarrow> Inr (map_option (\<lambda>n. n div Timedelta_days_1) v))))"

text \<open>
  The populations on which lines 273 and 274 stay inside the 64-bit nanosecond range:
  every present date plus one day is a timestamp, and so is the difference between
  such a sum and every present date.
\<close>

definition recency_in_bounds :: "data_orders_row list \<Rightarrow> bool" where
  "recency_in_bounds rows =
     (\<forall>t \<in> set (present (map last_purchase_date rows)).
      \<forall>u \<in> set (present (map last_purchase_date rows)).
        - Timestamp_max \<le> t + Timedelta_days_1 \<and> t + Timedelta_days_1 \<le> Timestamp_max \<and>
        t + Timedelta_days_1 - u \<le> Timestamp_max)"

text \<open>The recency column of line 274: the day counts, a missing one filled with 0.\<close>

definition recency_column :: "int option \<Rightarrow> data_orders_row list \<Rightarrow> error + int list" where
  "recency_column anchor rows =
     (case apply_rows (\<lambda>d. days anchor (last_purchase_date d)) rows of
        Inl e \<Rightarrow> Inl e
      | Inr ds \<Rightarrow> Inr (map (fillna 0) ds))"

subsection \<open>Quantile scoring (lines 282--316)\<close>

text \<open>
  \<^verbatim>\<open>Series.quantile([0.2, 0.4, 0.6, 0.8])\<close> yields a series indexed by the four
  levels; the scoring functions read it at \<^verbatim>\<open>[0.8]\<close>, \<^verbatim>\<open>[0.6]\<close>,
  \<^verbatim>\<open>[0.4]\<close> and \<^verbatim>\<open>[0.2]\<close>.
\<close>

record quartiles =
  q02 :: rat
  q04 :: rat
  q06 :: rat
  q08 :: rat

definition r_score :: "rat \<Rightarrow> quartiles \<Rightarrow> int" where
  "r_score v r_quartiles =
     (if v \<ge> q08 r_quartiles then 1
      else if v \<ge> q06 r_quartiles then 2
      else if v \<ge> q04 r_quartiles then 3
      else if v \<ge> q02 r_quartiles then 4
      else 5)"

definition f_score :: "rat \<Rightarrow> quartiles \<Rightarrow> int" where
  "f_score v f_quartiles =
     (if v \<ge> q08 f_quartiles then 5
      else if v \<ge> q06 f_quartiles then 4
      else if v \<ge> q04 f_quartiles then 3
      else if v \<ge> q02 f_quartiles then 2
      else 1)"

definition m_score :: "rat \<Rightarrow> quartiles \<Rightarrow> int" where
  "m_score v m_quartiles =
     (if v \<ge> q08 m_quartiles then 5
      else if v \<ge> q06 m_quartiles then 4
      else if v \<ge> q04 m_quartiles then 3
      else if v \<ge> q02 m_quartiles then 2
      else 1)"

subsection \<open>Segment classifier (lines 329--356)\<close>

definition rfm_segment :: "string \<Rightarrow> string" where
  "rfm_segment score =
     (if score \<in> set [''555'', ''554'', ''545'', ''544'', ''545'', ''455'', ''445''] then
        ''Champions''
      else if score \<in> set [''543'', ''444'', ''435'', ''355'', ''354'', ''345'', ''344'', ''335''] then
        ''Loyal''
      else if score \<in> set [''553'', ''551'', ''552'', ''541'', ''542'', ''533'', ''532'', ''531'',
                             ''452'', ''451'', ''442'', ''441'', ''431'', ''453'', ''433'', ''432'',
                             ''423'', ''353'', ''352'', ''351'', ''342'', ''341'', ''333'', ''323''] then
        ''Potential Loyalist''
      else if score \<in> set [''525'', ''524'', ''523'', ''522'', ''521'', ''515'', ''514'', ''513'',
                             ''425'', ''424'', ''413'', ''414'', ''415'', ''315'', ''314'', ''313''] then
        ''Promising''
      else if score \<in> set [''512'', ''511'', ''422'', ''421'', ''412'', ''411'', ''311''] then
        ''New Customers''
      else if score \<in> set [''535'', ''534'', ''443'', ''434'', ''343'', ''334'', ''325'', ''324''] then
        ''Need Attention''
      else if score \<in> set [''331'', ''321'', ''312'', ''221'', ''213'', ''231'', ''241'', ''251''] then
        ''About To Sleep''
      else if score \<in> set [''255'', ''254'', ''245'', ''244'', ''243'', ''252'', ''243'', ''242'',
                             ''235'', ''234'', ''225'', ''224'', ''153'', ''152'', ''145'', ''143'',
                             ''142'', ''135'', ''134'', ''133'', ''125'', ''124''] then
        ''At Risk''
      else if score \<in> set [''155'', ''154'', ''144'', ''214'', ''215'', ''115'', ''114'', ''113''] then
        ''Cannot Lose Them''
      else if score \<in> set [''332'', ''322'', ''233'', ''232'', ''223'', ''222'', ''132'', ''123'',
                             ''122'', ''212'', ''211''] then
        ''Hibernating Customers''
      else if score \<in> set [''111'', ''112'', ''121'', ''131'', ''141'', ''151''] then
        ''Lost Customers''
      else ''Other'')"

subsection \<open>The RFM frame (lines 270--358)\<close>

record rfm_row =
  customer_unique_id :: string
  rfm_last_purchase_date :: "int option"
  freq :: nat
  monetary :: rat
  recency :: int
  R_Score :: int
  F_Score :: int
  M_Score :: int
  RFM_Score :: string
  Segment :: string

definition series_quartiles :: "rat list \<Rightarrow> quartiles option" where
  "series_quartiles xs =
     (case quantile xs (2 / 10) of None \<Rightarrow> None | Some a \<Rightarrow>
      case quantile xs (4 / 10) of None \<Rightarrow> None | Some b \<Rightarrow>
      case quantile xs (6 / 10) of None \<Rightarrow> None | Some c \<Rightarrow>
      case quantile xs (8 / 10) of None \<Rightarrow> None | Some d \<Rightarrow>
        Some \<lparr>q02 = a, q04 = b, q06 = c, q08 = d\<rparr>)"

definition rfm_code :: "int \<Rightarrow> int \<Rightarrow> int \<Rightarrow> string" where
  "rfm_code r f m = str_int r @ str_int f @ str_int m"

text \<open>One row of the frame, from a profile and its recency.\<close>

definition rfm_of ::
  "quartiles \<Rightarrow> quartiles \<Rightarrow> quartiles \<Rightarrow> data_orders_row \<times> int \<Rightarrow> rfm_row" where
  "rfm_of r_quartiles f_quartiles m_quartiles row =
     (let d = fst row; rec = snd row;
          r = r_score (of_int rec) r_quartiles;
          f = f_score (of_nat (order_count d)) f_quartiles;
          m = m_score (total_price d) m_quartiles
      in \<lparr>customer_unique_id = do_customer_id d,
          rfm_last_purchase_date = last_purchase_date d,
          freq = order_count d,
          monetary = total_price d,
          recency = rec,
          R_Score = r, F_Score = f, M_Score = m,
          RFM_Score = rfm_code r f m,
          Segment = rfm_segment (rfm_code r f m)\<rparr>)"

text \<open>
  The frame is built when lines 273 and 274 do not raise. The quartiles of an empty
  frame are \<^verbatim>\<open>NaN\<close>; \<^verbatim>\<open>apply\<close> then has no row to call a scoring function
  on, and the frame stays empty.
\<close>

definition df_rfm :: "data_orders_row list \<Rightarrow> error + rfm_row list" where
  "df_rfm data_orders_frame =
     (let base = sort_key (\<lambda>d. na_last (last_purchase_date d)) data_orders_frame
      in case recency_date base of Inl e \<Rightarrow> Inl e | Inr anchor \<Rightarrow>
         case recency_column anchor base of Inl e \<Rightarrow> Inl e | Inr recency_values \<Rightarrow>
           (let r_quartiles = series_quartiles (map of_int recency_values);
                f_quartiles = series_quartiles (map (\<lambda>d. of_nat (order_count d)) base);
                m_quartiles = series_quartiles (map total_price base)
            in case r_quartiles of None \<Rightarrow> Inr [] | Some rq \<Rightarrow>
               case f_quartiles of None \<Rightarrow> Inr [] | Some fq \<Rightarrow>
               case m_quartiles of None \<Rightarrow> Inr [] | Some mq \<Rightarrow>
                 Inr (map (rfm_of rq fq mq) (zip base recency_values))))"

subsection \<open>Segment summary and Pareto view (lines 361--394)\<close>

text \<open>
  The definitions of this part compute on a \<^verbatim>\<open>float64\<close> column \<^verbatim>\<open>monetary\<close>;
  \<open>summary_stage\<close> below says what line 379 does on an \<^verbatim>\<open>object\<close> column.
\<close>

definition unique_segments :: "rfm_row list \<Rightarrow> string list" where
  "unique_segments rfm = sort (remdups (map Segment rfm))"

definition filtered_rfm :: "string list \<Rightarrow> rfm_row list \<Rightarrow> rfm_row list" where
  "filtered_rfm selected_segments rfm = filter (\<lambda>r. Segment r \<in> set selected_segments) rfm"

record summary_row =
  s_Segment :: string
  customer_count :: nat
  total_monetary :: rat
  total_monetary_percent :: "rat option"
  total_monetary_scaling :: "rat option"

text \<open>The grouped frame before the derived columns: segment, count and sum.\<close>

definition rfm_groups :: "rfm_row list \<Rightarrow> (string \<times> nat \<times> rat) list" where
  "rfm_groups rfm =
     map (\<lambda>s. let g = group_rows Segment rfm s in (s, length g, sum_list (map monetary g)))
       (group_keys Segment rfm)"

definition total_monetary_all :: "rfm_row list \<Rightarrow> rat" where
  "total_monetary_all rfm = sum_list (map (\<lambda>g. snd (snd g)) (rfm_groups rfm))"

text \<open>
  The lambda of lines 383--386: \<^verbatim>\<open>max()\<close> and \<^verbatim>\<open>min()\<close> are read from the
  column on every call; \<^verbatim>\<open>NaN != 0\<close> holds, so a \<^verbatim>\<open>NaN\<close> difference takes the
  dividing branch.
\<close>

definition scaling :: "rat list \<Rightarrow> rat \<Rightarrow> rat option" where
  "scaling column x =
     (case series_max column of None \<Rightarrow> None | Some mx \<Rightarrow>
      case series_min column of None \<Rightarrow> None | Some mn \<Rightarrow>
        if mx - mn \<noteq> 0 then np_div (x - mn) (mx - mn) else Some 0)"

definition data_rfm_summary :: "rfm_row list \<Rightarrow> summary_row list" where
  "data_rfm_summary rfm =
     (let groups = rfm_groups rfm;
          column = map (\<lambda>g. snd (snd g)) groups
      in map (\<lambda>(s, n, t).
            \<lparr>s_Segment = s, customer_count = n, total_monetary = t,
             total_monetary_percent =
               map_option (\<lambda>x. np_round (x * 100) 2) (np_div t (total_monetary_all rfm)),
             total_monetary_scaling = scaling column t\<rparr>) groups)"

text \<open>
  Lines 393--394: the summary sorted by \<^verbatim>\<open>total_monetary\<close>, largest first, with
  the column \<^verbatim>\<open>cumsum() / sum() * 100\<close> added.
\<close>

record pareto_row = summary_row +
  Cumulative_pct :: "rat option"

definition pareto :: "summary_row list \<Rightarrow> pareto_row list" where
  "pareto summary =
     (let sorted_rows = sort_key (\<lambda>r. - total_monetary r) summary;
          column = map total_monetary sorted_rows
      in map (\<lambda>(r, c).
            \<lparr>s_Segment = s_Segment r, customer_count = customer_count r,
             total_monetary = total_monetary r,
             total_monetary_percent = total_monetary_percent r,
             total_monetary_scaling = total_monetary_scaling r,
             Cumulative_pct = map_option (\<lambda>x. x * 100) (np_div c (sum_list column))\<rparr>)
           (zip sorted_rows (cumsum column)))"

subsection \<open>The section as a whole\<close>

text \<open>
  Lines 378--381 by the type of the column \<^verbatim>\<open>monetary\<close>. On a \<^verbatim>\<open>float64\<close>
  column they compute. On an \<^verbatim>\<open>object\<close> column the division is Python's division
  of each cell, which raises on the zero total of a column with a cell, and
  \<^verbatim>\<open>round\<close> refuses the column.
\<close>

definition summary_stage :: "dtype \<Rightarrow> rfm_row list \<Rightarrow> error + summary_row list" where
  "summary_stage monetary_dtype rfm =
     (case monetary_dtype of
        float64 \<Rightarrow> Inr (data_rfm_summary rfm)
      | object_dtype \<Rightarrow>
          if rfm_groups rfm \<noteq> [] \<and> total_monetary_all rfm = 0 then Inl ZeroDivisionError
          else Inl TypeError)"

text \<open>
  Lines 256--394 from the filtered orders, the order items and the segments the analyst
  selected: the customer profiles, the RFM frame, the segment summary and its Pareto
  form. The column \<^verbatim>\<open>monetary\<close> has the type of the price column.
\<close>

definition rfm_pipeline ::
  "order_row list \<Rightarrow> item_row list \<Rightarrow> string list \<Rightarrow>
   error + (data_orders_row list \<times> rfm_row list \<times> summary_row list \<times> pareto_row list)" where
  "rfm_pipeline filtered_orders df_order_items selected_segments =
     (let profiles = data_orders filtered_orders df_order_items
      in case df_rfm profiles of Inl e \<Rightarrow> Inl e | Inr rfm \<Rightarrow>
         case summary_stage (price_dtype df_order_items) (filtered_rfm selected_segments rfm) of
           Inl e \<Rightarrow> Inl e
         | Inr summary \<Rightarrow> Inr (profiles, rfm, summary, pareto summary))"

subsection \<open>The segment table of the specification\<close>

text \<open>
  The table of spec section 6, written from the spec's words and not from the source:
  each named segment with the codes listed for it, in the order of the table.
\<close>

definition spec_segment_table :: "(string \<times> string list) list" where
  "spec_segment_table =
    [(''Champions'', [''555'', ''554'', ''545'', ''544'', ''455'', ''445'']),
     (''Loyal'', [''543'', ''444'', ''435'', ''355'', ''354'', ''345'', ''344'', ''335'']),
     (''Potential Loyalist'',
        [''553'', ''551'', ''552'', ''541'', ''542'', ''533'', ''532'', ''531'', ''452'', ''451'',
         ''442'', ''441'', ''431'', ''453'', ''433'', ''432'', ''423'', ''353'', ''352'', ''351'',
         ''342'', ''341'', ''333'', ''323'']),
     (''Promising'',
        [''525'', ''524'', ''523'', ''522'', ''521'', ''515'', ''514'', ''513'', ''425'', ''424'',
         ''413'', ''414'', ''415'', ''315'', ''314'', ''313'']),
     (''New Customers'', [''512'', ''511'', ''422'', ''421'', ''412'', ''411'', ''311'']),
     (''Need Attention'', [''535'', ''534'', ''443'', ''434'', ''343'', ''334'', ''325'', ''324'']),
     (''About To Sleep'', [''331'', ''321'', ''312'', ''221'', ''213'', ''231'', ''241'', ''251'']),
     (''At Risk'',
        [''255'', ''254'', ''245'', ''244'', ''243'', ''252'', ''242'', ''235'', ''234'', ''225'',
         ''224'', ''153'', ''152'', ''145'', ''143'', ''142'', ''135'', ''134'', ''133'', ''125'',
         ''124'']),
     (''Cannot Lose Them'', [''155'', ''154'', ''144'', ''214'', ''215'', ''115'', ''114'', ''113'']),
     (''Hibernating Customers'',
        [''332'', ''322'', ''233'', ''232'', ''223'', ''222'', ''132'', ''123'', ''122'', ''212'',
         ''211'']),
     (''Lost Customers'', [''111'', ''112'', ''121'', ''131'', ''141'', ''151''])]"

definition spec_listed_codes :: "string list" where
  "spec_listed_codes = concat (map snd spec_segment_table)"

definition segment_labels :: "string list" where
  "segment_labels = map fst spec_segment_table @ [''Other'']"

subsection \<open>Example inputs\<close>

text \<open>
  A small population used to run the pipeline: customer \<open>c1\<close> with one delivered order
  of three items, \<open>c2\<close> with two delivered orders, \<open>c3\<close> whose only order is not
  delivered, and \<open>c4\<close> whose delivered order has no item row and no timestamp.
\<close>

definition example_orders :: "order_row list" where
  "example_orders =
    [\<lparr>order_id = Some ''o1'', customer_id = Some ''c1'', order_status = Some ''delivered'',
      order_purchase_timestamp = Some 0\<rparr>,
     \<lparr>order_id = Some ''o2'', customer_id = Some ''c2'', order_status = Some ''delivered'',
      order_purchase_timestamp = Some 86400000000000\<rparr>,
     \<lparr>order_id = Some ''o3'', customer_id = Some ''c2'', order_status = Some ''delivered'',
      order_purchase_timestamp = Some 186400000000000\<rparr>,
     \<lparr>order_id = Some ''o4'', customer_id = Some ''c3'', order_status = Some ''shipped'',
      order_purchase_timestamp = Some 286400000000000\<rparr>,
     \<lparr>order_id = Some ''o5'', customer_id = Some ''c4'', order_status = Some ''delivered'',
      order_purchase_timestamp = None\<rparr>]"

definition example_items :: "item_row list" where
  "example_items =
    [\<lparr>item_order_id = Some ''o1'', product_id = Some ''p1'', shipping_limit_date = Some 5,
      price = Some 10, freight_value = Some 5\<rparr>,
     \<lparr>item_order_id = Some ''o1'', product_id = Some ''p1'', shipping_limit_date = Some 5,
      price = Some 10, freight_value = Some 5\<rparr>,
     \<lparr>item_order_id = Some ''o1'', product_id = Some ''p2'', shipping_limit_date = Some 5,
      price = Some (7 / 2), freight_value = Some 1\<rparr>,
     \<lparr>item_order_id = Some ''o2'', product_id = Some ''p2'', shipping_limit_date = Some 5,
      price = Some (7 / 2), freight_value = Some 1\<rparr>,
     \<lparr>item_order_id = Some ''o3'', product_id = Some ''p3'', shipping_limit_date = Some 6,
      price = Some 100, freight_value = Some 1\<rparr>,
     \<lparr>item_order_id = Some ''o4'', product_id = Some ''p3'', shipping_limit_date = Some 6,
      price = Some 100, freight_value = Some 1\<rparr>]"

definition example_profiles :: "data_orders_row list" where
  "example_profiles =
    [\<lparr>do_customer_id = ''c2'', last_purchase_date = Some 186400000000000,
      order_count = 2, total_price = 207 / 2\<rparr>,
     \<lparr>do_customer_id = ''c1'', last_purchase_date = Some 0,
      order_count = 1, total_price = 47 / 2\<rparr>,
     \<lparr>do_customer_id = ''c4'', last_purchase_date = None,
      order_count = 1, total_price = 0\<rparr>]"

definition example_rfm :: "rfm_row list" where
  "example_rfm =
    [\<lparr>customer_unique_id = ''c1'', rfm_last_purchase_date = Some 0, freq = 1,
      monetary = 47 / 2, recency = 3, R_Score = 1, F_Score = 3, M_Score = 3,
      RFM_Score = ''133'', Segment = ''At Risk''\<rparr>,
     \<lparr>customer_unique_id = ''c2'', rfm_last_purchase_date = Some 186400000000000, freq = 2,
      monetary = 207 / 2, recency = 1, R_Score = 3, F_Score = 5, M_Score = 5,
      RFM_Score = ''355'', Segment = ''Loyal''\<rparr>,
     \<lparr>customer_unique_id = ''c4'', rfm_last_purchase_date = None, freq = 1,
      monetary = 0, recency = 0, R_Score = 5, F_Score = 3, M_Score = 1,
      RFM_Score = ''531'', Segment = ''Potential Loyalist''\<rparr>]"

definition example_summary :: "summary_row list" where
  "example_summary =
    [\<lparr>s_Segment = ''At Risk'', customer_count = 1, total_monetary = 47 / 2,
      total_monetary_percent = Some (37 / 2), total_monetary_scaling = Some (47 / 207)\<rparr>,
     \<lparr>s_Segment = ''Loyal'', customer_count = 1, total_monetary = 207 / 2,
      total_monetary_percent = Some (163 / 2), total_monetary_scaling = Some 1\<rparr>,
     \<lparr>s_Segment = ''Potential Loyalist'', customer_count = 1, total_monetary = 0,
      total_monetary_percent = Some 0, total_monetary_scaling = Some 0\<rparr>]"

text \<open>
  A population of one customer whose delivered order has no row among the example
  items: the left merge keeps the order, and the customer's monetary value is 0.
\<close>

definition example_zero_orders :: "order_row list" where
  "example_zero_orders =
    [\<lparr>order_id = Some ''o5'', customer_id = Some ''c4'', order_status = Some ''delivered'',
      order_purchase_timestamp = Some 0\<rparr>]"

definition example_zero_rfm :: "rfm_row list" where
  "example_zero_rfm =
    [\<lparr>customer_unique_id = ''c4'', rfm_last_purchase_date = Some 0, freq = 1,
      monetary = 0, recency = 1, R_Score = 1, F_Score = 5, M_Score = 5,
      RFM_Score = ''155'', Segment = ''Cannot Lose Them''\<rparr>]"

text \<open>A population of one customer with one delivered order of one item.\<close>

definition example_single_order :: "order_row list" where
  "example_single_order =
    [\<lparr>order_id = Some ''o1'', customer_id = Some ''c1'', order_status = Some ''delivered'',
      order_purchase_timestamp = Some 0\<rparr>]"

definition example_single_item :: "item_row list" where
  "example_single_item =
    [\<lparr>item_order_id = Some ''o1'', product_id = Some ''p1'', shipping_limit_date = Some 5,
      price = Some 10, freight_value = Some 5\<rparr>]"

text \<open>
  Two items of one delivered order, the second without \<^verbatim>\<open>product_id\<close>: the
  grouping of line 75 drops it.
\<close>

definition example_keyless_items :: "item_row list" where
  "example_keyless_items =
    [\<lparr>item_order_id = Some ''o1'', product_id = Some ''p1'', shipping_limit_date = Some 5,
      price = Some 7, freight_value = Some 1\<rparr>,
     \<lparr>item_order_id = Some ''o1'', product_id = None, shipping_limit_date = Some 5,
      price = Some 10, freight_value = Some 1\<rparr>]"

definition example_keyless_rfm :: "rfm_row list" where
  "example_keyless_rfm =
    [\<lparr>customer_unique_id = ''c1'', rfm_last_purchase_date = Some 0, freq = 1,
      monetary = 7, recency = 1, R_Score = 1, F_Score = 5, M_Score = 5,
      RFM_Score = ''155'', Segment = ''Cannot Lose Them''\<rparr>]"

text \<open>A customer whose last purchase is at the largest timestamp.\<close>

definition example_latest_profile :: "data_orders_row list" where
  "example_latest_profile =
    [\<lparr>do_customer_id = ''c1'', last_purchase_date = Some 9223372036854775807,
      order_count = 1, total_price = 10\<rparr>]"

text \<open>An order that is not delivered.\<close>

definition example_shipped_order :: "order_row list" where
  "example_shipped_order =
    [\<lparr>order_id = Some ''o4'', customer_id = Some ''c3'', order_status = Some ''shipped'',
      order_purchase_timestamp = Some 286400000000000\<rparr>]"

section \<open>Verification\<close>

subsection \<open>The pipeline on the example\<close>

lemma data_orders_example: "data_orders example_orders example_items = example_profiles"
  by code_simp

lemma df_rfm_example: "df_rfm example_profiles = Inr example_rfm"
  by code_simp

subsection \<open>Series helpers\<close>

lemma series_max_eq: "series_max xs = (if xs = [] then None else Some (Max (set xs)))"
  by (cases xs) (simp_all add: Max.set_eq_fold del: set_simps)

lemma series_min_eq: "series_min xs = (if xs = [] then None else Some (Min (set xs)))"
  by (cases xs) (simp_all add: Min.set_eq_fold del: set_simps)

lemma series_max_cong: "set xs = set ys \<Longrightarrow> series_max xs = series_max ys"
  by (metis series_max_eq set_empty)

lemma set_present: "set (present xs) = {y. Some y \<in> set xs}"
  by (induction xs) (auto simp: present_def split: option.splits)

lemma series_quartiles_None: "series_quartiles xs = None \<longleftrightarrow> xs = []"
  by (cases "xs = []") (auto simp: series_quartiles_def quantile_def Let_def split: option.splits)

subsection \<open>Row-wise application\<close>

lemma apply_rows_Inr:
  "apply_rows f xs = Inr ys \<Longrightarrow> list_all2 (\<lambda>x y. f x = Inr y) xs ys"
  by (induction xs arbitrary: ys) (auto split: sum.splits)

lemma apply_rows_total:
  "\<forall>x \<in> set xs. \<exists>y. f x = Inr y \<Longrightarrow> \<exists>ys. apply_rows f xs = Inr ys"
  by (induction xs) (auto split: sum.splits)

subsection \<open>The RFM frame as a map over the profiles\<close>

lemma recency_date_sort_key: "recency_date (sort_key k d) = recency_date d"
proof -
  have "set (present (map last_purchase_date (sort_key k d))) =
        set (present (map last_purchase_date d))"
    by (simp add: set_present)
  then have "series_max (present (map last_purchase_date (sort_key k d))) =
        series_max (present (map last_purchase_date d))"
    by (rule series_max_cong)
  then show ?thesis
    unfolding recency_date_def by simp
qed

lemma recency_in_bounds_sort_key: "recency_in_bounds (sort_key k d) = recency_in_bounds d"
  by (simp add: recency_in_bounds_def set_present)

lemma recency_column_Inr:
  "recency_column anchor rows = Inr recs \<Longrightarrow>
   list_all2 (\<lambda>d r. \<exists>v. days anchor (last_purchase_date d) = Inr v \<and> r = fillna 0 v) rows recs"
proof -
  assume "recency_column anchor rows = Inr recs"
  then obtain ds where ds: "apply_rows (\<lambda>d. days anchor (last_purchase_date d)) rows = Inr ds"
    and recs: "recs = map (fillna 0) ds"
    by (auto simp: recency_column_def split: sum.splits)
  from apply_rows_Inr [OF ds]
  have "list_all2 (\<lambda>d v. days anchor (last_purchase_date d) = Inr v) rows ds" .
  then show ?thesis
    unfolding recs list_all2_map2 by (rule list_all2_mono) auto
qed

lemma df_rfm_Inr:
  assumes "df_rfm d = Inr rows"
  shows "\<exists>anchor recs rq fq mq.
     recency_date d = Inr anchor \<and>
     recency_column anchor (sort_key (\<lambda>x. na_last (last_purchase_date x)) d) = Inr recs \<and>
     length recs = length d \<and>
     rows = map (rfm_of rq fq mq) (zip (sort_key (\<lambda>x. na_last (last_purchase_date x)) d) recs)"
proof -
  let ?base = "sort_key (\<lambda>x. na_last (last_purchase_date x)) d"
  from assms obtain anchor recs where a: "recency_date ?base = Inr anchor"
    and r: "recency_column anchor ?base = Inr recs"
    by (auto simp: df_rfm_def Let_def split: sum.splits)
  from recency_column_Inr [OF r] have len: "length recs = length d"
    by (auto dest: list_all2_lengthD)
  have "\<exists>rq fq mq. rows = map (rfm_of rq fq mq) (zip ?base recs)"
  proof (cases "d = []")
    case True
    with assms len show ?thesis
      by (auto simp: df_rfm_def Let_def split: sum.splits option.splits)
  next
    case False
    then have base: "?base \<noteq> []"
      by (metis length_sort length_0_conv)
    from False len have recs: "recs \<noteq> []" by auto
    note base recs
    with assms a r show ?thesis
      by (auto simp: df_rfm_def Let_def series_quartiles_None split: option.splits)
  qed
  with a r len show ?thesis
    by (auto simp: recency_date_sort_key)
qed

lemma rfm_of_sel:
  "rfm_last_purchase_date (rfm_of rq fq mq row) = last_purchase_date (fst row)"
  "customer_unique_id (rfm_of rq fq mq row) = do_customer_id (fst row)"
  "recency (rfm_of rq fq mq row) = snd row"
  "monetary (rfm_of rq fq mq row) = total_price (fst row)"
  "freq (rfm_of rq fq mq row) = order_count (fst row)"
  by (simp_all add: rfm_of_def Let_def)

subsection \<open>Score and code invariants\<close>

lemma score_cases: "1 \<le> i \<Longrightarrow> i \<le> 5 \<Longrightarrow> i = 1 \<or> i = 2 \<or> i = 3 \<or> i = 4 \<or> (i::int) = 5"
  by arith

lemma str_int_score_in:
  "1 \<le> i \<Longrightarrow> i \<le> 5 \<Longrightarrow> length (str_int i) = 1 \<and> set (str_int i) \<subseteq> set ''12345''"
  using score_cases [of i] by (auto simp: str_int_def digit_char_def)

lemma r_score_range: "1 \<le> r_score v q \<and> r_score v q \<le> 5"
  by (simp add: r_score_def)

lemma f_score_range: "1 \<le> f_score v q \<and> f_score v q \<le> 5"
  by (simp add: f_score_def)

lemma m_score_range: "1 \<le> m_score v q \<and> m_score v q \<le> 5"
  by (simp add: m_score_def)

lemma rfm_segment_label: "rfm_segment c \<in> set segment_labels"
  unfolding segment_labels_def spec_segment_table_def
  by (simp add: rfm_segment_def)

lemma rfm_segment_nonempty: "rfm_segment c \<noteq> []"
  by (simp add: rfm_segment_def)

lemma rfm_of_invariant:
  "R_Score (rfm_of rq fq mq row) \<in> {1..5} \<and>
   F_Score (rfm_of rq fq mq row) \<in> {1..5} \<and>
   M_Score (rfm_of rq fq mq row) \<in> {1..5} \<and>
   RFM_Score (rfm_of rq fq mq row) =
     str_int (R_Score (rfm_of rq fq mq row)) @ str_int (F_Score (rfm_of rq fq mq row)) @
     str_int (M_Score (rfm_of rq fq mq row)) \<and>
   length (RFM_Score (rfm_of rq fq mq row)) = 3 \<and>
   set (RFM_Score (rfm_of rq fq mq row)) \<subseteq> set ''12345'' \<and>
   Segment (rfm_of rq fq mq row) = rfm_segment (RFM_Score (rfm_of rq fq mq row)) \<and>
   Segment (rfm_of rq fq mq row) \<in> set segment_labels \<and>
   Segment (rfm_of rq fq mq row) \<noteq> []"
  using r_score_range f_score_range m_score_range str_int_score_in
  by (simp add: rfm_of_def Let_def rfm_code_def rfm_segment_label rfm_segment_nonempty
      del: set_simps)

subsection \<open>Recency\<close>

lemma present_dates:
  "set (present (map last_purchase_date d)) = {t. \<exists>x \<in> set d. last_purchase_date x = Some t}"
  by (force simp: set_present image_iff)

lemma int64_value_Some:
  "- Timestamp_max \<le> v \<Longrightarrow> v \<le> Timestamp_max \<Longrightarrow> int64_value v = Inr (Some v)"
  by (simp add: int64_value_def)

lemma recency_date_in_bounds:
  assumes "recency_in_bounds d"
  shows "recency_date d =
     Inr (if {t. \<exists>x \<in> set d. last_purchase_date x = Some t} = {} then None
          else Some (Max {t. \<exists>x \<in> set d. last_purchase_date x = Some t} + Timedelta_days_1))"
proof (cases "present (map last_purchase_date d) = []")
  case True
  then have "set (present (map last_purchase_date d)) = {}" by simp
  with True show ?thesis
    unfolding present_dates by (simp add: recency_date_def)
next
  case False
  let ?S = "set (present (map last_purchase_date d))"
  from False have ne: "?S \<noteq> {}" by simp
  then have "Max ?S \<in> ?S" by (intro Max_in) simp_all
  with assms have "- Timestamp_max \<le> Max ?S + Timedelta_days_1"
    "Max ?S + Timedelta_days_1 \<le> Timestamp_max"
    unfolding recency_in_bounds_def by blast+
  then have "int64_value (Max ?S + Timedelta_days_1) = Inr (Some (Max ?S + Timedelta_days_1))"
    by (rule int64_value_Some)
  with False ne show ?thesis
    unfolding present_dates [symmetric] by (simp add: recency_date_def series_max_eq)
qed

lemma days_in_bounds:
  assumes "recency_in_bounds d" and "x \<in> set d" and "last_purchase_date x = Some t"
  shows "\<exists>a. recency_date d = Inr (Some a) \<and> t < a \<and>
     days (Some a) (Some t) = Inr (Some ((a - t) div Timedelta_days_1)) \<and>
     0 \<le> (a - t) div Timedelta_days_1"
proof -
  let ?S = "{t. \<exists>x \<in> set d. last_purchase_date x = Some t}"
  have fin: "finite ?S"
    unfolding present_dates [symmetric] by simp
  from assms(2,3) have mem: "t \<in> ?S" by auto
  then have le: "t \<le> Max ?S" using fin by (rule_tac Max_ge)
  from mem have ne: "?S \<noteq> {}" by auto
  then have mx: "Max ?S \<in> ?S" using fin by (intro Max_in)
  from ne have a: "recency_date d = Inr (Some (Max ?S + Timedelta_days_1))"
    using recency_date_in_bounds [OF assms(1)] by simp
  have pos: "0 < Timedelta_days_1" by (simp add: Timedelta_days_1_def)
  from assms(1) mx mem have up: "Max ?S + Timedelta_days_1 - t \<le> Timestamp_max"
    unfolding recency_in_bounds_def present_dates by blast
  have "0 \<le> Timestamp_max" by (simp add: Timestamp_max_def)
  with le pos have low: "- Timestamp_max \<le> Max ?S + Timedelta_days_1 - t" by simp
  have d: "days (Some (Max ?S + Timedelta_days_1)) (Some t) =
      Inr (Some ((Max ?S + Timedelta_days_1 - t) div Timedelta_days_1))"
    by (simp add: days_def int64_value_Some [OF low up])
  have "0 \<le> (Max ?S + Timedelta_days_1 - t) div Timedelta_days_1"
    using le pos by (simp add: pos_imp_zdiv_nonneg_iff)
  with a d le pos show ?thesis by simp
qed

lemma days_missing: "days anchor None = Inr None" "days None x = Inr None"
  by (simp_all add: days_def split: option.splits)

lemma df_rfm_in_bounds:
  assumes "recency_in_bounds d"
  shows "\<exists>rows. df_rfm d = Inr rows"
proof -
  let ?base = "sort_key (\<lambda>x. na_last (last_purchase_date x)) d"
  from recency_date_in_bounds [OF assms] obtain anchor where a: "recency_date d = Inr anchor"
    by blast
  have "\<exists>v. days anchor (last_purchase_date x) = Inr v" if "x \<in> set ?base" for x
  proof (cases "last_purchase_date x")
    case None
    then show ?thesis by (simp add: days_missing)
  next
    case (Some t)
    from that have "x \<in> set d" by simp
    from days_in_bounds [OF assms this Some] a Some show ?thesis by auto
  qed
  then have "\<exists>ds. apply_rows (\<lambda>x. days anchor (last_purchase_date x)) ?base = Inr ds"
    by (intro apply_rows_total) blast
  then obtain recs where "recency_column anchor ?base = Inr recs"
    by (auto simp: recency_column_def)
  with a show ?thesis
    by (auto simp: df_rfm_def Let_def recency_date_sort_key split: option.splits)
qed

text \<open>
  Claim C4. Whenever the RFM frame is produced it has one record per customer profile,
  so it is non-empty for a non-empty population, and in every record the three scores
  lie in \<open>1..5\<close>, the code is the decimal digits of the recency, frequency and monetary
  score in this order, three characters long, and the segment is the classifier's label
  of that code: one of the twelve labels and not the empty string. The frame is
  produced for every population whose dates stay inside the timestamp range.
\<close>

theorem C4_rfm_record_invariant:
  "(\<forall>rows. df_rfm d = Inr rows \<longrightarrow>
      length rows = length d \<and>
      (\<forall>r \<in> set rows.
         R_Score r \<in> {1..5} \<and> F_Score r \<in> {1..5} \<and> M_Score r \<in> {1..5} \<and>
         RFM_Score r = str_int (R_Score r) @ str_int (F_Score r) @ str_int (M_Score r) \<and>
         length (RFM_Score r) = 3 \<and> set (RFM_Score r) \<subseteq> set ''12345'' \<and>
         Segment r = rfm_segment (RFM_Score r) \<and> Segment r \<in> set segment_labels \<and>
         Segment r \<noteq> [])) \<and>
   (recency_in_bounds d \<longrightarrow> (\<exists>rows. df_rfm d = Inr rows))"
proof (intro conjI allI impI)
  fix rows assume ok: "df_rfm d = Inr rows"
  from df_rfm_Inr [OF ok] obtain recs rq fq mq where len: "length recs = length d"
    and eq: "rows = map (rfm_of rq fq mq)
       (zip (sort_key (\<lambda>x. na_last (last_purchase_date x)) d) recs)"
    by blast
  show "length rows = length d"
    unfolding eq using len by simp
  show "\<forall>r \<in> set rows.
         R_Score r \<in> {1..5} \<and> F_Score r \<in> {1..5} \<and> M_Score r \<in> {1..5} \<and>
         RFM_Score r = str_int (R_Score r) @ str_int (F_Score r) @ str_int (M_Score r) \<and>
         length (RFM_Score r) = 3 \<and> set (RFM_Score r) \<subseteq> set ''12345'' \<and>
         Segment r = rfm_segment (RFM_Score r) \<and> Segment r \<in> set segment_labels \<and>
         Segment r \<noteq> []"
  proof
    fix r assume "r \<in> set rows"
    then obtain row where r: "r = rfm_of rq fq mq row"
      unfolding eq by auto
    show "R_Score r \<in> {1..5} \<and> F_Score r \<in> {1..5} \<and> M_Score r \<in> {1..5} \<and>
         RFM_Score r = str_int (R_Score r) @ str_int (F_Score r) @ str_int (M_Score r) \<and>
         length (RFM_Score r) = 3 \<and> set (RFM_Score r) \<subseteq> set ''12345'' \<and>
         Segment r = rfm_segment (RFM_Score r) \<and> Segment r \<in> set segment_labels \<and>
         Segment r \<noteq> []"
      unfolding r by (rule rfm_of_invariant)
  qed
next
  assume "recency_in_bounds d"
  then show "\<exists>rows. df_rfm d = Inr rows" by (rule df_rfm_in_bounds)
qed

lemma example_profiles_in_bounds: "recency_in_bounds example_profiles"
  by (simp add: recency_in_bounds_def example_profiles_def present_def Timestamp_max_def
      Timedelta_days_1_def)

theorem C4_rfm_record_invariant_witness:
  "recency_in_bounds example_profiles \<and>
   df_rfm example_profiles = Inr example_rfm \<and>
   length example_rfm = length example_profiles \<and>
   map RFM_Score example_rfm = [''133'', ''355'', ''531''] \<and>
   R_Score (example_rfm ! 1) \<in> {1..5} \<and>
   F_Score (example_rfm ! 1) \<in> {1..5} \<and>
   M_Score (example_rfm ! 1) \<in> {1..5} \<and>
   length (RFM_Score (example_rfm ! 1)) = 3 \<and>
   Segment (example_rfm ! 1) \<in> set segment_labels \<and>
   Segment (example_rfm ! 1) \<noteq> []"
proof -
  have mem: "example_rfm ! 1 \<in> set example_rfm"
    by (simp add: example_rfm_def)
  have codes: "map RFM_Score example_rfm = [''133'', ''355'', ''531'']"
    by (simp add: example_rfm_def)
  from C4_rfm_record_invariant [of example_profiles] df_rfm_example mem codes
    example_profiles_in_bounds
  show ?thesis by blast
qed

text \<open>
  Claim C5, as the code has it. For a population whose dates stay inside the timestamp
  range (each date plus one day, and the difference between such a sum and each date,
  is a 64-bit nanosecond value) the RFM frame is produced, the anchor is one day after
  the latest last purchase date (\<^verbatim>\<open>NaT\<close> when no profile has a date), and every
  profile is kept with its date, missing or not. A customer with a date \<open>t\<close> has
  \<open>t\<close> before the anchor \<open>a\<close> and recency the whole days of \<open>a - t\<close>, which is
  not negative; a customer without a date has recency 0.
\<close>

theorem C5_recency:
  assumes "recency_in_bounds d"
  shows "\<exists>rows. df_rfm d = Inr rows \<and>
     recency_date d =
       Inr (if {t. \<exists>x \<in> set d. last_purchase_date x = Some t} = {} then None
            else Some (Max {t. \<exists>x \<in> set d. last_purchase_date x = Some t} + Timedelta_days_1)) \<and>
     mset (map (\<lambda>r. (customer_unique_id r, rfm_last_purchase_date r)) rows) =
       mset (map (\<lambda>x. (do_customer_id x, last_purchase_date x)) d) \<and>
     (\<forall>r \<in> set rows.
        case rfm_last_purchase_date r of
          None \<Rightarrow> recency r = 0
        | Some t \<Rightarrow>
            (\<exists>a. recency_date d = Inr (Some a) \<and> t < a \<and>
                 recency r = (a - t) div Timedelta_days_1 \<and> 0 \<le> recency r))"
proof -
  let ?base = "sort_key (\<lambda>x. na_last (last_purchase_date x)) d"
  from df_rfm_in_bounds [OF assms] obtain rows where ok: "df_rfm d = Inr rows" ..
  from df_rfm_Inr [OF ok] obtain anchor recs rq fq mq where a: "recency_date d = Inr anchor"
    and col: "recency_column anchor ?base = Inr recs"
    and len: "length recs = length d"
    and eq: "rows = map (rfm_of rq fq mq) (zip ?base recs)"
    by blast
  have fst_zip: "map fst (zip ?base recs) = ?base"
    using len by (simp add: map_fst_zip)
  have "map (\<lambda>r. (customer_unique_id r, rfm_last_purchase_date r)) rows =
      map ((\<lambda>x. (do_customer_id x, last_purchase_date x)) \<circ> fst) (zip ?base recs)"
    unfolding eq by (simp add: rfm_of_sel split_def o_def)
  also have "\<dots> = map (\<lambda>x. (do_customer_id x, last_purchase_date x)) ?base"
    unfolding map_map [symmetric] fst_zip ..
  finally have kept: "mset (map (\<lambda>r. (customer_unique_id r, rfm_last_purchase_date r)) rows) =
       mset (map (\<lambda>x. (do_customer_id x, last_purchase_date x)) d)"
    by simp
  have each: "case rfm_last_purchase_date r of
        None \<Rightarrow> recency r = 0
      | Some t \<Rightarrow>
          (\<exists>a. recency_date d = Inr (Some a) \<and> t < a \<and>
               recency r = (a - t) div Timedelta_days_1 \<and> 0 \<le> recency r)"
    if "r \<in> set rows" for r
  proof -
    from that obtain x rec where xr: "(x, rec) \<in> set (zip ?base recs)"
      and r: "r = rfm_of rq fq mq (x, rec)"
      unfolding eq by auto
    from xr have x: "x \<in> set d" by (auto dest: set_zip_leftD)
    from recency_column_Inr [OF col] xr
    obtain v where v: "days anchor (last_purchase_date x) = Inr v" and rec: "rec = fillna 0 v"
      by (auto simp: list_all2_iff)
    show ?thesis
    proof (cases "last_purchase_date x")
      case None
      with v rec show ?thesis
        by (simp add: r rfm_of_sel days_missing fillna_def)
    next
      case (Some t)
      from days_in_bounds [OF assms x Some] a v rec Some show ?thesis
        by (auto simp: r rfm_of_sel fillna_def)
    qed
  qed
  from ok recency_date_in_bounds [OF assms] kept each show ?thesis by blast
qed

theorem C5_recency_witness:
  "recency_in_bounds example_profiles \<and>
   df_rfm example_profiles = Inr example_rfm \<and>
   recency_date example_profiles = Inr (Some (186400000000000 + Timedelta_days_1)) \<and>
   map customer_unique_id example_rfm = [''c1'', ''c2'', ''c4''] \<and>
   rfm_last_purchase_date (example_rfm ! 0) = Some 0 \<and>
   recency (example_rfm ! 0) = (186400000000000 + Timedelta_days_1 - 0) div Timedelta_days_1 \<and>
   recency (example_rfm ! 0) = 3 \<and>
   rfm_last_purchase_date (example_rfm ! 2) = None \<and>
   recency (example_rfm ! 2) = 0"
proof -
  have dates: "{t. \<exists>x \<in> set example_profiles. last_purchase_date x = Some t} = {186400000000000, 0}"
    by (auto simp: example_profiles_def)
  have mem: "example_rfm ! 0 \<in> set example_rfm" "example_rfm ! 2 \<in> set example_rfm"
    by (simp_all add: example_rfm_def)
  have d0: "rfm_last_purchase_date (example_rfm ! 0) = Some 0"
    and d2: "rfm_last_purchase_date (example_rfm ! 2) = None"
    and ids: "map customer_unique_id example_rfm = [''c1'', ''c2'', ''c4'']"
    by (simp_all add: example_rfm_def)
  from C5_recency [OF example_profiles_in_bounds] df_rfm_example
  have all: "recency_date example_profiles =
       Inr (if {t. \<exists>x \<in> set example_profiles. last_purchase_date x = Some t} = {} then None
            else Some (Max {t. \<exists>x \<in> set example_profiles. last_purchase_date x = Some t} +
              Timedelta_days_1))"
    and each: "\<forall>r \<in> set example_rfm.
        case rfm_last_purchase_date r of
          None \<Rightarrow> recency r = 0
        | Some t \<Rightarrow>
            (\<exists>a. recency_date example_profiles = Inr (Some a) \<and> t < a \<and>
                 recency r = (a - t) div Timedelta_days_1 \<and> 0 \<le> recency r)"
    by auto
  from all have anchor:
    "recency_date example_profiles = Inr (Some (186400000000000 + Timedelta_days_1))"
    by (simp add: dates)
  from each mem(1) d0 anchor
  have r0: "recency (example_rfm ! 0) =
      (186400000000000 + Timedelta_days_1 - 0) div Timedelta_days_1"
    by force
  from each mem(2) d2 have r2: "recency (example_rfm ! 2) = 0"
    by force
  from r0 have r0': "recency (example_rfm ! 0) = 3"
    by (simp add: Timedelta_days_1_def)
  from example_profiles_in_bounds df_rfm_example anchor ids d0 r0 r0' d2 r2 show ?thesis
    by blast
qed

text \<open>
  The claim as stated fails for a population whose latest purchase is less than a day
  before the largest timestamp: line 273 raises, and there is neither an anchor nor a
  recency.
\<close>

theorem C5_out_of_bounds_counterexample:
  "map last_purchase_date example_latest_profile = [Some Timestamp_max] \<and>
   recency_date example_latest_profile = Inl OutOfBoundsDatetime \<and>
   df_rfm example_latest_profile = Inl OutOfBoundsDatetime"
  by code_simp

subsection \<open>Empty population\<close>

lemma merge_left_status:
  "m \<in> set (merge_left orders items) \<Longrightarrow> \<exists>ord \<in> set orders. m_order_status m = order_status ord"
  by (auto simp: merge_left_def merge_rows_def merged_of_def Let_def split: if_splits)

lemma data_orders_none_delivered:
  assumes "\<forall>ord \<in> set filtered_orders. order_status ord \<noteq> Some ''delivered''"
  shows "data_orders filtered_orders df_order_items = []"
proof -
  have "filter (\<lambda>m. m_order_status m = Some ''delivered'')
          (merge_left filtered_orders (df_order_items_agg df_order_items)) = []"
    using assms merge_left_status by (fastforce simp: filter_empty_conv)
  then show ?thesis
    by (simp add: data_orders_def group_keys_dropna_def present_def)
qed

lemma empty_stages:
  "df_rfm [] = Inr []" "filtered_rfm sel [] = []" "data_rfm_summary [] = []" "pareto [] = []"
  "unique_segments [] = []" "recency_date [] = Inr None"
  by (simp_all add: df_rfm_def filtered_rfm_def data_rfm_summary_def pareto_def
      unique_segments_def recency_date_def recency_column_def series_quartiles_def quantile_def
      rfm_groups_def group_keys_def cumsum_def present_def)

text \<open>
  Claim C9, as the code has it. When the order-items table has at least one row and no
  order of the filtered input is delivered, no line of the section raises, and the
  customer profile frame, the RFM frame, the segment summary and its Pareto form are
  empty, under any segment selection.
\<close>

theorem C9_empty_population:
  assumes "\<forall>ord \<in> set filtered_orders. order_status ord \<noteq> Some ''delivered''"
    and "df_order_items \<noteq> []"
  shows "data_orders filtered_orders df_order_items = [] \<and>
         recency_date (data_orders filtered_orders df_order_items) = Inr None \<and>
         df_rfm (data_orders filtered_orders df_order_items) = Inr [] \<and>
         rfm_pipeline filtered_orders df_order_items selected_segments = Inr ([], [], [], [])"
  using data_orders_none_delivered [OF assms(1)] assms(2)
  by (simp add: empty_stages rfm_pipeline_def summary_stage_def price_dtype_def)

theorem C9_empty_population_witness:
  "data_orders example_shipped_order example_items = [] \<and>
   df_rfm (data_orders example_shipped_order example_items) = Inr [] \<and>
   rfm_pipeline example_shipped_order example_items [] = Inr ([], [], [], []) \<and>
   rfm_pipeline [] example_items [] = Inr ([], [], [], [])"
proof -
  have shipped: "\<forall>ord \<in> set example_shipped_order. order_status ord \<noteq> Some ''delivered''"
    by (simp add: example_shipped_order_def)
  have none: "\<forall>ord \<in> set ([] :: order_row list). order_status ord \<noteq> Some ''delivered''"
    by simp
  have items: "example_items \<noteq> []"
    by (simp add: example_items_def)
  from C9_empty_population [OF shipped items, of "[]"]
    C9_empty_population [OF none items, of "[]"]
  show ?thesis by blast
qed

text \<open>
  The claim as stated fails when the order-items table has no row: its price column is
  then an \<^verbatim>\<open>object\<close> column, so is \<^verbatim>\<open>total_monetary\<close> of the empty summary,
  and \<^verbatim>\<open>round\<close> at line 379 raises \<^verbatim>\<open>TypeError\<close>.
\<close>

theorem C9_untyped_items_counterexample:
  "data_orders [] [] = [] \<and> df_rfm (data_orders [] []) = Inr [] \<and>
   price_dtype [] = object_dtype \<and>
   rfm_pipeline [] [] [] = Inl TypeError"
  by code_simp

subsection \<open>Quantile scores\<close>

text \<open>
  Claim C3. For a value \<open>v\<close> and ordered breakpoints \<open>q02 \<le> q04 \<le> q06 \<le> q08\<close>,
  frequency and monetary scoring return 5 from \<open>q08\<close> upwards, 4 on \<open>[q06, q08)\<close>,
  3 on \<open>[q04, q06)\<close>, 2 on \<open>[q02, q04)\<close> and 1 below \<open>q02\<close>; recency scoring
  returns 1, 2, 3, 4 and 5 on the same intervals. A value equal to a breakpoint lies in
  the interval that starts there, so a tie takes the bucket of the first inclusive
  comparison that holds, read from the top.
\<close>

theorem C3_quantile_scores:
  assumes "q02 q \<le> q04 q" and "q04 q \<le> q06 q" and "q06 q \<le> q08 q"
  shows "(q08 q \<le> v \<longrightarrow> f_score v q = 5 \<and> m_score v q = 5 \<and> r_score v q = 1) \<and>
         (q06 q \<le> v \<and> v < q08 q \<longrightarrow> f_score v q = 4 \<and> m_score v q = 4 \<and> r_score v q = 2) \<and>
         (q04 q \<le> v \<and> v < q06 q \<longrightarrow> f_score v q = 3 \<and> m_score v q = 3 \<and> r_score v q = 3) \<and>
         (q02 q \<le> v \<and> v < q04 q \<longrightarrow> f_score v q = 2 \<and> m_score v q = 2 \<and> r_score v q = 4) \<and>
         (v < q02 q \<longrightarrow> f_score v q = 1 \<and> m_score v q = 1 \<and> r_score v q = 5)"
  using assms by (auto simp: f_score_def m_score_def r_score_def)

theorem C3_quantile_scores_witness:
  "f_score 3 \<lparr>q02 = 1, q04 = 2, q06 = 3, q08 = 4\<rparr> = 4 \<and>
   m_score 3 \<lparr>q02 = 1, q04 = 2, q06 = 3, q08 = 4\<rparr> = 4 \<and>
   r_score 3 \<lparr>q02 = 1, q04 = 2, q06 = 3, q08 = 4\<rparr> = 2 \<and>
   f_score 4 \<lparr>q02 = 1, q04 = 2, q06 = 3, q08 = 4\<rparr> = 5 \<and>
   r_score 4 \<lparr>q02 = 1, q04 = 2, q06 = 3, q08 = 4\<rparr> = 1 \<and>
   m_score (1 / 2) \<lparr>q02 = 1, q04 = 2, q06 = 3, q08 = 4\<rparr> = 1 \<and>
   r_score (1 / 2) \<lparr>q02 = 1, q04 = 2, q06 = 3, q08 = 4\<rparr> = 5 \<and>
   f_score 1 \<lparr>q02 = 1, q04 = 1, q06 = 1, q08 = 1\<rparr> = 5 \<and>
   r_score 1 \<lparr>q02 = 1, q04 = 1, q06 = 1, q08 = 1\<rparr> = 1"
  using C3_quantile_scores [of "\<lparr>q02 = 1, q04 = 2, q06 = 3, q08 = 4\<rparr>" 3]
    C3_quantile_scores [of "\<lparr>q02 = 1, q04 = 2, q06 = 3, q08 = 4\<rparr>" 4]
    C3_quantile_scores [of "\<lparr>q02 = 1, q04 = 2, q06 = 3, q08 = 4\<rparr>" "1 / 2"]
    C3_quantile_scores [of "\<lparr>q02 = 1, q04 = 1, q06 = 1, q08 = 1\<rparr>" 1]
  by simp

subsection \<open>Segment classifier\<close>

text \<open>
  Claim C2. The classifier reproduces the table of spec section 6: a code listed under a
  named segment gets that segment's name, a code listed nowhere gets \<open>Other\<close>, and
  every string gets one of the twelve labels. The table lists no code twice, so the
  label of a listed code is the only one the table allows.
\<close>

theorem C2_segment_table:
  "(\<forall>(name, codes) \<in> set spec_segment_table. \<forall>c \<in> set codes. rfm_segment c = name) \<and>
   (\<forall>c. c \<notin> set spec_listed_codes \<longrightarrow> rfm_segment c = ''Other'') \<and>
   (\<forall>c. rfm_segment c \<in> set segment_labels) \<and>
   distinct spec_listed_codes \<and> distinct segment_labels \<and> length segment_labels = 12"
  unfolding spec_listed_codes_def segment_labels_def spec_segment_table_def
  by (simp add: rfm_segment_def)

theorem C2_segment_table_witness:
  "rfm_segment ''555'' = ''Champions'' \<and> rfm_segment ''111'' = ''Lost Customers'' \<and>
   rfm_segment ''999'' = ''Other'' \<and> rfm_segment ''abc'' = ''Other''"
proof -
  have champions: "(''Champions'', [''555'', ''554'', ''545'', ''544'', ''455'', ''445''])
      \<in> set spec_segment_table"
    by (simp add: spec_segment_table_def)
  have lost: "(''Lost Customers'', [''111'', ''112'', ''121'', ''131'', ''141'', ''151''])
      \<in> set spec_segment_table"
    by (simp add: spec_segment_table_def)
  have unlisted: "''999'' \<notin> set spec_listed_codes" "''abc'' \<notin> set spec_listed_codes"
    by (simp_all add: spec_listed_codes_def spec_segment_table_def)
  from C2_segment_table champions have "rfm_segment ''555'' = ''Champions''"
    by fastforce
  moreover from C2_segment_table lost have "rfm_segment ''111'' = ''Lost Customers''"
    by fastforce
  moreover from C2_segment_table unlisted
  have "rfm_segment ''999'' = ''Other''" "rfm_segment ''abc'' = ''Other''"
    by blast+
  ultimately show ?thesis by simp
qed

text \<open>
  Claim C10. The codes \<open>454\<close> and \<open>253\<close>, made of in-range scores, are listed under
  no named segment and are classified \<open>Other\<close>.
\<close>

theorem C10_other_reachable:
  "rfm_code 4 5 4 = ''454'' \<and> rfm_code 2 5 3 = ''253'' \<and>
   ''454'' \<notin> set spec_listed_codes \<and> ''253'' \<notin> set spec_listed_codes \<and>
   rfm_segment ''454'' = ''Other'' \<and> rfm_segment ''253'' = ''Other'' \<and>
   rfm_segment (rfm_code 4 5 4) \<notin> set (map fst spec_segment_table) \<and>
   rfm_segment (rfm_code 2 5 3) \<notin> set (map fst spec_segment_table)"
  unfolding spec_listed_codes_def spec_segment_table_def
  by (simp add: rfm_segment_def rfm_code_def str_int_def digit_char_def)

subsection \<open>Order aggregation\<close>

lemma sum_list_filter_disj:
  fixes f :: "'a \<Rightarrow> rat"
  assumes "\<And>x. x \<in> set xs \<Longrightarrow> \<not> (P x \<and> Q x)"
  shows "sum_list (map f (filter (\<lambda>x. P x \<or> Q x) xs)) =
         sum_list (map f (filter P xs)) + sum_list (map f (filter Q xs))"
  using assms by (induction xs) auto

lemma sum_list_groups:
  fixes f :: "'a \<Rightarrow> rat"
  assumes "distinct ks"
  shows "sum_list (map (\<lambda>k. sum_list (map f (filter (\<lambda>x. key x = k) xs))) ks) =
         sum_list (map f (filter (\<lambda>x. key x \<in> set ks) xs))"
  using assms
proof (induction ks)
  case Nil
  then show ?case by simp
next
  case (Cons k ks)
  have "sum_list (map f (filter (\<lambda>x. key x = k \<or> key x \<in> set ks) xs)) =
        sum_list (map f (filter (\<lambda>x. key x = k) xs)) +
        sum_list (map f (filter (\<lambda>x. key x \<in> set ks) xs))"
    using Cons.prems by (intro sum_list_filter_disj) auto
  with Cons show ?case by (simp add: eq_commute [of k])
qed

lemma sum_list_present: "sum_list (present xs) = sum_list (map (fillna 0) xs)"
  for xs :: "rat option list"
  by (induction xs) (simp_all add: present_def fillna_def split: option.splits)

lemma present_Nil: "present [] = []"
  by (simp add: present_def)

lemma present_append: "present (xs @ ys) = present xs @ present ys"
  by (simp add: present_def)

lemma distinct_group_keys_dropna: "distinct (group_keys_dropna key rows)"
  by (simp add: group_keys_dropna_def)

lemma set_group_keys_dropna: "set (group_keys_dropna key rows) = {k. Some k \<in> key ` set rows}"
  by (simp add: group_keys_dropna_def set_present)

lemma items_key_order: "items_key i = Some k \<Longrightarrow> item_order_id i = Some (fst k)"
  by (auto simp: items_key_def split: option.splits)

lemma agg_order_sum:
  "sum_list (map oi_total_price
     (filter (\<lambda>g. Some (oi_order_id g) = oid) (df_order_items_agg items))) =
   sum_list (present (map price
     (filter (\<lambda>i. items_key i \<noteq> None \<and> item_order_id i = oid) items)))"
proof -
  let ?ks = "filter (\<lambda>k. Some (fst k) = oid) (group_keys_dropna items_key items)"
  let ?f = "\<lambda>i. fillna 0 (price i)"
  have d: "distinct (map Some ?ks)"
    by (simp add: distinct_map distinct_group_keys_dropna)
  have "map oi_total_price (filter (\<lambda>g. Some (oi_order_id g) = oid) (df_order_items_agg items)) =
        map (\<lambda>k. sum_list (map ?f (filter (\<lambda>i. items_key i = k) items))) (map Some ?ks)"
    by (simp add: df_order_items_agg_def filter_map o_def Let_def group_rows_dropna_def
        sum_list_present)
  then have "sum_list (map oi_total_price
        (filter (\<lambda>g. Some (oi_order_id g) = oid) (df_order_items_agg items))) =
      sum_list (map ?f (filter (\<lambda>i. items_key i \<in> set (map Some ?ks)) items))"
    using sum_list_groups [OF d, of ?f items_key items] by simp
  also have "filter (\<lambda>i. items_key i \<in> set (map Some ?ks)) items =
      filter (\<lambda>i. items_key i \<noteq> None \<and> item_order_id i = oid) items"
  proof (rule filter_cong)
    fix i assume i: "i \<in> set items"
    show "(items_key i \<in> set (map Some ?ks)) =
        (items_key i \<noteq> None \<and> item_order_id i = oid)"
    proof (cases "items_key i")
      case None
      then show ?thesis by auto
    next
      case (Some k)
      from i Some have "Some k \<in> items_key ` set items" by (metis imageI)
      with Some items_key_order [OF Some] show ?thesis
        by (auto simp: set_group_keys_dropna)
    qed
  qed simp
  finally show ?thesis
    by (simp add: sum_list_present o_def)
qed

lemma present_merged_prices:
  "present (map m_total_price (merge_rows ord G)) =
   map oi_total_price (filter (\<lambda>g. Some (oi_order_id g) = order_id ord) G)"
proof -
  have some: "present (map m_total_price (map (\<lambda>g. merged_of ord (Some g)) ms)) =
      map oi_total_price ms" for ms
    by (induction ms) (simp_all add: present_def merged_of_def)
  show ?thesis
  proof (cases "filter (\<lambda>g. Some (oi_order_id g) = order_id ord) G = []")
    case True
    then show ?thesis by (simp add: merge_rows_def present_def merged_of_def)
  next
    case False
    then have "merge_rows ord G =
        map (\<lambda>g. merged_of ord (Some g)) (filter (\<lambda>g. Some (oi_order_id g) = order_id ord) G)"
      by (simp add: merge_rows_def)
    then show ?thesis by (simp only: some)
  qed
qed

lemma merge_rows_fields:
  "m \<in> set (merge_rows ord G) \<Longrightarrow>
   m_order_status m = order_status ord \<and> m_customer_id m = customer_id ord \<and>
   m_order_id m = order_id ord"
  by (auto simp: merge_rows_def Let_def merged_of_def split: if_splits)

lemma filter_merge_rows:
  "filter (\<lambda>m. m_order_status m = s \<and> m_customer_id m = c) (merge_rows ord G) =
   (if order_status ord = s \<and> customer_id ord = c then merge_rows ord G else [])"
proof (cases "order_status ord = s \<and> customer_id ord = c")
  case True
  then have "\<forall>m \<in> set (merge_rows ord G). m_order_status m = s \<and> m_customer_id m = c"
    by (auto dest: merge_rows_fields)
  then have "filter (\<lambda>m. m_order_status m = s \<and> m_customer_id m = c) (merge_rows ord G) =
      merge_rows ord G"
    by (rule filter_True)
  with True show ?thesis by simp
next
  case False
  then have "\<forall>m \<in> set (merge_rows ord G). \<not> (m_order_status m = s \<and> m_customer_id m = c)"
    by (auto dest: merge_rows_fields)
  then have "filter (\<lambda>m. m_order_status m = s \<and> m_customer_id m = c) (merge_rows ord G) = []"
    by (rule filter_False)
  with False show ?thesis by auto
qed

lemma customer_total:
  "sum_list (present (map m_total_price
     (filter (\<lambda>m. m_order_status m = s \<and> m_customer_id m = c) (merge_left fo G)))) =
   sum_list (map (\<lambda>ord. sum_list (map oi_total_price
       (filter (\<lambda>g. Some (oi_order_id g) = order_id ord) G)))
     (filter (\<lambda>ord. order_status ord = s \<and> customer_id ord = c) fo))"
proof (induction fo)
  case Nil
  then show ?case by (simp add: merge_left_def present_Nil)
next
  case (Cons ord fo)
  have split: "merge_left (ord # fo) G = merge_rows ord G @ merge_left fo G"
    by (simp add: merge_left_def)
  show ?case
    unfolding split filter_append filter_merge_rows
    using Cons.IH by (simp add: present_append present_merged_prices present_Nil)
qed

lemma data_orders_row_total:
  assumes "r \<in> set (data_orders fo items)"
  shows "total_price r = sum_list (present (map m_total_price
     (filter (\<lambda>m. m_order_status m = Some ''delivered'' \<and> m_customer_id m = Some (do_customer_id r))
       (merge_left fo (df_order_items_agg items)))))"
  using assms by (auto simp: data_orders_def Let_def group_rows_dropna_def)

lemma data_orders_total_price:
  assumes "distinct (map order_id fo)" and "r \<in> set (data_orders fo items)"
  shows "total_price r = sum_list (present (map price (filter (\<lambda>i. items_key i \<noteq> None \<and>
     item_order_id i \<in> order_id ` {ord \<in> set fo. order_status ord = Some ''delivered'' \<and>
       customer_id ord = Some (do_customer_id r)})
     items)))"
proof -
  let ?os = "filter (\<lambda>ord. order_status ord = Some ''delivered'' \<and>
     customer_id ord = Some (do_customer_id r)) fo"
  let ?keyed = "filter (\<lambda>i. items_key i \<noteq> None) items"
  let ?f = "\<lambda>i. fillna 0 (price i)"
  have d: "distinct (map order_id ?os)"
    using assms(1) by (rule distinct_map_filter)
  have "total_price r =
     sum_list (map (\<lambda>ord. sum_list (present (map price
        (filter (\<lambda>i. items_key i \<noteq> None \<and> item_order_id i = order_id ord) items)))) ?os)"
    unfolding data_orders_row_total [OF assms(2)] customer_total agg_order_sum ..
  also have "\<dots> = sum_list (map (\<lambda>k. sum_list (map ?f (filter (\<lambda>i. item_order_id i = k) ?keyed)))
     (map order_id ?os))"
    by (simp add: o_def sum_list_present conj_commute)
  also have "\<dots> = sum_list (map ?f (filter (\<lambda>i. item_order_id i \<in> set (map order_id ?os)) ?keyed))"
    using d by (rule sum_list_groups)
  also have "\<dots> = sum_list (present (map price (filter (\<lambda>i. items_key i \<noteq> None \<and>
      item_order_id i \<in> set (map order_id ?os)) items)))"
    by (simp add: o_def sum_list_present conj_commute)
  also have "set (map order_id ?os) =
     order_id ` {ord \<in> set fo. order_status ord = Some ''delivered'' \<and>
       customer_id ord = Some (do_customer_id r)}"
    by auto
  finally show ?thesis .
qed

lemma df_rfm_rows:
  assumes "df_rfm d = Inr rows" and "r \<in> set rows"
  shows "\<exists>x \<in> set d. customer_unique_id r = do_customer_id x \<and> monetary r = total_price x"
proof -
  from df_rfm_Inr [OF assms(1)] obtain recs rq fq mq where
    eq: "rows = map (rfm_of rq fq mq)
       (zip (sort_key (\<lambda>x. na_last (last_purchase_date x)) d) recs)"
    by blast
  from assms(2) obtain x rec where
    "(x, rec) \<in> set (zip (sort_key (\<lambda>x. na_last (last_purchase_date x)) d) recs)"
    and "r = rfm_of rq fq mq (x, rec)"
    unfolding eq by auto
  moreover from this have "x \<in> set d" by (auto dest: set_zip_leftD)
  ultimately show ?thesis by (auto simp: rfm_of_sel)
qed

text \<open>
  Claim C1, as the code has it. The orders table has one row per order id. For every
  customer of the RFM frame, \<open>monetary\<close> is the sum of \<open>price\<close> alone over the order
  items of that customer's delivered orders that have an order id, a product id and a
  shipping limit date: the aggregation reads the column \<^verbatim>\<open>total_price\<close>, so
  \<open>freight_value\<close> is not part of it, the grouping of line 75 drops an item row
  without one of its three keys, and a missing price counts 0.
\<close>

theorem C1_monetary_price_sum:
  assumes "distinct (map order_id filtered_orders)"
    and "df_rfm (data_orders filtered_orders df_order_items) = Inr rows"
  shows "\<forall>r \<in> set rows.
     monetary r =
       sum_list (present (map price (filter (\<lambda>i. items_key i \<noteq> None \<and> item_order_id i \<in>
         order_id ` {ord \<in> set filtered_orders.
           order_status ord = Some ''delivered'' \<and> customer_id ord = Some (customer_unique_id r)})
         df_order_items)))"
proof
  fix r assume "r \<in> set rows"
  with assms(2) obtain x where x: "x \<in> set (data_orders filtered_orders df_order_items)"
    and r: "customer_unique_id r = do_customer_id x" "monetary r = total_price x"
    using df_rfm_rows by blast
  from data_orders_total_price [OF assms(1) x] r
  show "monetary r =
       sum_list (present (map price (filter (\<lambda>i. items_key i \<noteq> None \<and> item_order_id i \<in>
         order_id ` {ord \<in> set filtered_orders.
           order_status ord = Some ''delivered'' \<and> customer_id ord = Some (customer_unique_id r)})
         df_order_items)))"
    by simp
qed

lemma keyless_example:
  "df_rfm (data_orders example_single_order example_keyless_items) = Inr example_keyless_rfm"
  by code_simp

theorem C1_monetary_price_sum_witness:
  "distinct (map order_id example_orders) \<and>
   df_rfm (data_orders example_orders example_items) = Inr example_rfm \<and>
   customer_unique_id (example_rfm ! 1) = ''c2'' \<and>
   monetary (example_rfm ! 1) =
     sum_list (present (map price (filter (\<lambda>i. items_key i \<noteq> None \<and> item_order_id i \<in>
       order_id ` {ord \<in> set example_orders.
         order_status ord = Some ''delivered'' \<and> customer_id ord = Some ''c2''}) example_items))) \<and>
   monetary (example_rfm ! 1) = 207 / 2 \<and>
   df_rfm (data_orders example_single_order example_keyless_items) = Inr example_keyless_rfm \<and>
   map items_key example_keyless_items = [Some (''o1'', ''p1'', 5), None] \<and>
   monetary (example_keyless_rfm ! 0) = 7"
proof -
  have ids: "distinct (map order_id example_orders)"
    by (simp add: example_orders_def)
  have ev: "df_rfm (data_orders example_orders example_items) = Inr example_rfm"
    by (simp only: data_orders_example df_rfm_example)
  have mem: "example_rfm ! 1 \<in> set example_rfm"
    by (simp add: example_rfm_def)
  have c2: "customer_unique_id (example_rfm ! 1) = ''c2''"
    and m: "monetary (example_rfm ! 1) = 207 / 2"
    by (simp_all add: example_rfm_def)
  from C1_monetary_price_sum [OF ids ev] mem
  have "monetary (example_rfm ! 1) =
     sum_list (present (map price (filter (\<lambda>i. items_key i \<noteq> None \<and> item_order_id i \<in>
       order_id ` {ord \<in> set example_orders. order_status ord = Some ''delivered'' \<and>
         customer_id ord = Some (customer_unique_id (example_rfm ! 1))}) example_items)))"
    by blast
  then have c2_sum: "monetary (example_rfm ! 1) =
     sum_list (present (map price (filter (\<lambda>i. items_key i \<noteq> None \<and> item_order_id i \<in>
       order_id ` {ord \<in> set example_orders. order_status ord = Some ''delivered'' \<and>
         customer_id ord = Some ''c2''}) example_items)))"
    by (simp only: c2)
  have single: "distinct (map order_id example_single_order)"
    by (simp add: example_single_order_def)
  have mem7: "example_keyless_rfm ! 0 \<in> set example_keyless_rfm"
    by (simp add: example_keyless_rfm_def)
  have delivered: "order_id ` {ord \<in> set example_single_order.
      order_status ord = Some ''delivered'' \<and>
      customer_id ord = Some (customer_unique_id (example_keyless_rfm ! 0))} = {Some ''o1''}"
    by (auto simp: example_single_order_def example_keyless_rfm_def)
  have keys: "map items_key example_keyless_items = [Some (''o1'', ''p1'', 5), None]"
    by (simp add: example_keyless_items_def items_key_def)
  from C1_monetary_price_sum [OF single keyless_example] mem7
  have "monetary (example_keyless_rfm ! 0) =
     sum_list (present (map price (filter (\<lambda>i. items_key i \<noteq> None \<and> item_order_id i \<in>
       order_id ` {ord \<in> set example_single_order. order_status ord = Some ''delivered'' \<and>
         customer_id ord = Some (customer_unique_id (example_keyless_rfm ! 0))})
       example_keyless_items)))"
    by blast
  then have m7: "monetary (example_keyless_rfm ! 0) = 7"
    unfolding delivered
    by (simp add: example_keyless_items_def items_key_def present_def)
  from ids ev c2 c2_sum m keyless_example keys m7 show ?thesis by blast
qed

text \<open>
  The claim as stated fails: for one customer with one delivered order of one item of
  price 10 and freight 5, \<open>monetary\<close> is 10, and price plus freight is 15.
\<close>

theorem C1_freight_counterexample:
  "df_rfm (data_orders example_single_order example_single_item) =
     Inr [\<lparr>customer_unique_id = ''c1'', rfm_last_purchase_date = Some 0, freq = 1,
       monetary = 10, recency = 1, R_Score = 1, F_Score = 5, M_Score = 5,
       RFM_Score = ''155'', Segment = ''Cannot Lose Them''\<rparr>] \<and>
   map total_value example_single_item = [Some 15] \<and>
   map item_order_id example_single_item = map order_id example_single_order"
  by code_simp

subsection \<open>Segment summary\<close>

lemma summary_totals:
  "map total_monetary (data_rfm_summary rfm) = map (\<lambda>g. snd (snd g)) (rfm_groups rfm)"
  by (simp add: data_rfm_summary_def Let_def split_def o_def)

lemma summary_scaling:
  "map total_monetary_scaling (data_rfm_summary rfm) =
   map (scaling (map total_monetary (data_rfm_summary rfm))) (map total_monetary (data_rfm_summary rfm))"
  unfolding summary_totals
  by (simp add: data_rfm_summary_def Let_def split_def o_def)

lemma summary_percent:
  "map total_monetary_percent (data_rfm_summary rfm) =
   map (\<lambda>t. map_option (\<lambda>x. np_round (x * 100) 2) (np_div t (total_monetary_all rfm)))
     (map total_monetary (data_rfm_summary rfm))"
  unfolding summary_totals
  by (simp add: data_rfm_summary_def Let_def split_def o_def)

lemma total_monetary_all_eq:
  "total_monetary_all rfm = sum_list (map total_monetary (data_rfm_summary rfm))"
  by (simp add: summary_totals total_monetary_all_def)

lemma scaling_eq:
  assumes "column \<noteq> []"
  shows "scaling column x =
    Some (if Max (set column) = Min (set column) then 0
          else (x - Min (set column)) / (Max (set column) - Min (set column)))"
  using assms by (simp add: scaling_def series_max_eq series_min_eq np_div_def)

text \<open>
  Claim C6. In every row of a segment summary the scaled value is a number (no
  \<^verbatim>\<open>NaN\<close>, no infinity): 0 when the largest and the smallest group total of the
  summary are equal, which covers a summary of one group, and
  \<open>(total_monetary - min) / (max - min)\<close> otherwise.
\<close>

theorem C6_scaling:
  "\<forall>s \<in> set (data_rfm_summary rfm).
     total_monetary_scaling s =
       Some (if Max (total_monetary ` set (data_rfm_summary rfm)) =
                Min (total_monetary ` set (data_rfm_summary rfm)) then 0
             else (total_monetary s - Min (total_monetary ` set (data_rfm_summary rfm))) /
                  (Max (total_monetary ` set (data_rfm_summary rfm)) -
                   Min (total_monetary ` set (data_rfm_summary rfm))))"
proof
  fix s assume s: "s \<in> set (data_rfm_summary rfm)"
  let ?S = "data_rfm_summary rfm"
  from s obtain i where i: "i < length ?S" "?S ! i = s"
    by (auto simp: in_set_conv_nth)
  have ne: "map total_monetary ?S \<noteq> []" using s by auto
  have "total_monetary_scaling s = map total_monetary_scaling ?S ! i"
    using i by simp
  also have "\<dots> = scaling (map total_monetary ?S) (total_monetary s)"
    unfolding summary_scaling using i by simp
  finally show "total_monetary_scaling s =
       Some (if Max (total_monetary ` set ?S) = Min (total_monetary ` set ?S) then 0
             else (total_monetary s - Min (total_monetary ` set ?S)) /
                  (Max (total_monetary ` set ?S) - Min (total_monetary ` set ?S)))"
    using scaling_eq [OF ne] by simp
qed

lemma summary_example: "data_rfm_summary example_rfm = example_summary"
  by code_simp

theorem C6_scaling_witness:
  "map total_monetary_scaling (data_rfm_summary example_rfm) = [Some (47 / 207), Some 1, Some 0] \<and>
   Max (total_monetary ` set (data_rfm_summary example_rfm)) = 207 / 2 \<and>
   Min (total_monetary ` set (data_rfm_summary example_rfm)) = 0 \<and>
   total_monetary_scaling (data_rfm_summary example_rfm ! 0) = Some ((47 / 2 - 0) / (207 / 2 - 0)) \<and>
   map total_monetary_scaling (data_rfm_summary [example_rfm ! 0]) = [Some 0]"
proof -
  have totals: "total_monetary ` set (data_rfm_summary example_rfm) = {47 / 2, 207 / 2, 0}"
    by (simp add: summary_example example_summary_def)
  have mx: "Max (total_monetary ` set (data_rfm_summary example_rfm)) = 207 / 2"
    and mn: "Min (total_monetary ` set (data_rfm_summary example_rfm)) = 0"
    unfolding totals by simp_all
  have mem: "data_rfm_summary example_rfm ! 0 \<in> set (data_rfm_summary example_rfm)"
    by (simp add: summary_example example_summary_def)
  have t0: "total_monetary (data_rfm_summary example_rfm ! 0) = 47 / 2"
    by (simp add: summary_example example_summary_def)
  from C6_scaling [of example_rfm] mem
  have "total_monetary_scaling (data_rfm_summary example_rfm ! 0) =
       Some (if Max (total_monetary ` set (data_rfm_summary example_rfm)) =
                Min (total_monetary ` set (data_rfm_summary example_rfm)) then 0
             else (total_monetary (data_rfm_summary example_rfm ! 0) -
                     Min (total_monetary ` set (data_rfm_summary example_rfm))) /
                  (Max (total_monetary ` set (data_rfm_summary example_rfm)) -
                   Min (total_monetary ` set (data_rfm_summary example_rfm))))"
    by blast
  then have s0: "total_monetary_scaling (data_rfm_summary example_rfm ! 0) =
      Some ((47 / 2 - 0) / (207 / 2 - 0))"
    by (simp add: mx mn t0)
  have all: "map total_monetary_scaling (data_rfm_summary example_rfm) =
      [Some (47 / 207), Some 1, Some 0]"
    by (simp add: summary_example example_summary_def)
  have single: "map total_monetary_scaling (data_rfm_summary [example_rfm ! 0]) = [Some 0]"
    by code_simp
  from all mx mn s0 single show ?thesis by blast
qed

subsection \<open>Pareto view\<close>

lemma length_cumsum_from: "length (cumsum_from acc xs) = length xs"
  by (induction xs arbitrary: acc) simp_all

lemma cumsum_from_nth:
  "i < length xs \<Longrightarrow> cumsum_from acc xs ! i = acc + sum_list (take (Suc i) xs)"
proof (induction xs arbitrary: acc i)
  case Nil
  then show ?case by simp
next
  case (Cons x xs)
  then show ?case by (cases i) (simp_all add: add.assoc)
qed

lemma cumsum_nth: "i < length xs \<Longrightarrow> cumsum xs ! i = sum_list (take (Suc i) xs)"
  by (simp add: cumsum_def cumsum_from_nth)

lemma sum_list_take_nth: "i < length xs \<Longrightarrow> sum_list (take (Suc i) xs) = (\<Sum>j\<le>i. (xs ! j :: rat))"
proof -
  assume i: "i < length xs"
  have "sum_list (take (Suc i) xs) = (\<Sum>j = 0..<length (take (Suc i) xs). take (Suc i) xs ! j)"
    by (rule sum_list_sum_nth)
  also have "\<dots> = (\<Sum>j = 0..<Suc i. xs ! j)"
    using i by (intro sum.cong) (auto simp: min_def)
  also have "\<dots> = (\<Sum>j\<le>i. xs ! j)"
    by (simp add: atLeast0LessThan lessThan_Suc_atMost)
  finally show ?thesis .
qed

lemma sum_list_sort_key: "sum_list (map f (sort_key k xs)) = sum_list (map f xs)"
  for f :: "'a \<Rightarrow> rat"
proof -
  have "sum_mset (mset (map f (sort_key k xs))) = sum_mset (mset (map f xs))" by simp
  then show ?thesis by (simp only: sum_mset_sum_list)
qed

lemma sorted_desc: "sorted (rev (map f (sort_key (\<lambda>r. - f r) xs)))" for f :: "'a \<Rightarrow> rat"
proof -
  have "sorted (map (\<lambda>r. - f r) (sort_key (\<lambda>r. - f r) xs))" by (rule sorted_sort_key)
  then have "sorted (map uminus (map f (sort_key (\<lambda>r. - f r) xs)))" by (simp add: o_def)
  then show ?thesis
    by (simp add: sorted_iff_nth_mono rev_nth)
qed

lemma pareto_length: "length (pareto summary) = length summary"
  by (simp add: pareto_def Let_def cumsum_def length_cumsum_from)

lemma pareto_rows:
  "map (\<lambda>p. (s_Segment p, total_monetary p)) (pareto summary) =
   map (\<lambda>r. (s_Segment r, total_monetary r)) (sort_key (\<lambda>r. - total_monetary r) summary)"
proof -
  have "map (\<lambda>p. (s_Segment p, total_monetary p)) (pareto summary) =
     map ((\<lambda>r. (s_Segment r, total_monetary r)) \<circ> fst)
       (zip (sort_key (\<lambda>r. - total_monetary r) summary)
         (cumsum (map total_monetary (sort_key (\<lambda>r. - total_monetary r) summary))))"
    by (simp add: pareto_def Let_def split_def o_def)
  also have "\<dots> = map (\<lambda>r. (s_Segment r, total_monetary r)) (sort_key (\<lambda>r. - total_monetary r) summary)"
    unfolding map_map [symmetric]
    by (simp add: map_fst_zip cumsum_def length_cumsum_from)
  finally show ?thesis .
qed

lemma pareto_totals:
  "map total_monetary (pareto summary) =
   map total_monetary (sort_key (\<lambda>r. - total_monetary r) summary)"
proof -
  have "map snd (map (\<lambda>p. (s_Segment p, total_monetary p)) (pareto summary)) =
        map snd (map (\<lambda>r. (s_Segment r, total_monetary r))
          (sort_key (\<lambda>r. - total_monetary r) summary))"
    by (simp only: pareto_rows)
  then show ?thesis by (simp add: o_def)
qed

lemma pareto_cumulative:
  assumes "sum_list (map total_monetary summary) \<noteq> 0"
  shows "map Cumulative_pct (pareto summary) =
    map Some (map (\<lambda>c. c / sum_list (map total_monetary summary) * 100)
      (cumsum (map total_monetary (pareto summary))))"
proof -
  let ?s = "sort_key (\<lambda>r. - total_monetary r) summary"
  have "map Cumulative_pct (pareto summary) =
     map ((\<lambda>c. map_option (\<lambda>x. x * 100) (np_div c (sum_list (map total_monetary ?s)))) \<circ> snd)
       (zip ?s (cumsum (map total_monetary ?s)))"
    by (simp add: pareto_def Let_def split_def o_def)
  also have "\<dots> = map (\<lambda>c. map_option (\<lambda>x. x * 100) (np_div c (sum_list (map total_monetary ?s))))
      (cumsum (map total_monetary ?s))"
    unfolding map_map [symmetric]
    by (simp add: map_snd_zip cumsum_def length_cumsum_from)
  also have "\<dots> = map Some (map (\<lambda>c. c / sum_list (map total_monetary summary) * 100)
      (cumsum (map total_monetary ?s)))"
    using assms by (simp add: sum_list_sort_key np_div_def o_def)
  finally show ?thesis by (simp add: pareto_totals)
qed

lemma pareto_sum: "sum_list (map total_monetary (pareto summary)) = sum_list (map total_monetary summary)"
  by (simp add: pareto_totals sum_list_sort_key)

lemma pareto_set_totals: "set (map total_monetary (pareto summary)) = total_monetary ` set summary"
  by (simp add: pareto_totals)

lemma pareto_cumulative_percent:
  assumes nonneg: "\<forall>s \<in> set summary. 0 \<le> total_monetary s"
    and total: "sum_list (map total_monetary summary) \<noteq> 0"
  shows "sorted (rev (map total_monetary (pareto summary))) \<and>
     mset (map (\<lambda>p. (s_Segment p, total_monetary p)) (pareto summary)) =
       mset (map (\<lambda>r. (s_Segment r, total_monetary r)) summary) \<and>
     (\<exists>cs. map Cumulative_pct (pareto summary) = map Some cs \<and>
        (\<forall>i < length cs. cs ! i =
           (\<Sum>j\<le>i. total_monetary (pareto summary ! j) /
              sum_list (map total_monetary summary) * 100)) \<and>
        sorted cs \<and> cs \<noteq> [] \<and> last cs = 100)"
proof -
  let ?P = "pareto summary"
  let ?ts = "map total_monetary ?P"
  let ?G = "sum_list (map total_monetary summary)"
  let ?cs = "map (\<lambda>c. c / ?G * 100) (cumsum ?ts)"
  have len: "length ?cs = length summary"
    by (simp add: cumsum_def length_cumsum_from pareto_length)
  have ne: "summary \<noteq> []" using total by auto
  have desc: "sorted (rev ?ts)"
    unfolding pareto_totals by (rule sorted_desc)
  have perm: "mset (map (\<lambda>p. (s_Segment p, total_monetary p)) ?P) =
       mset (map (\<lambda>r. (s_Segment r, total_monetary r)) summary)"
    unfolding pareto_rows by simp
  have ts_nonneg: "0 \<le> ?ts ! k" if "k < length summary" for k
  proof -
    from that have "k < length ?ts" by (simp add: pareto_length)
    then have "?ts ! k \<in> set ?ts" by (rule nth_mem)
    then show ?thesis using nonneg unfolding pareto_set_totals by auto
  qed
  have "0 \<le> ?G" using nonneg by (intro sum_list_nonneg) auto
  with total have Gpos: "0 < ?G" by simp
  have nth: "?cs ! i = (\<Sum>j\<le>i. total_monetary (?P ! j) / ?G * 100)" if "i < length ?cs" for i
  proof -
    from that len have i: "i < length ?ts" by (simp add: pareto_length)
    have "?cs ! i = cumsum ?ts ! i / ?G * 100"
      using i by (simp add: cumsum_def length_cumsum_from)
    also have "\<dots> = (\<Sum>j\<le>i. ?ts ! j) / ?G * 100"
      using i by (simp only: cumsum_nth sum_list_take_nth)
    also have "\<dots> = (\<Sum>j\<le>i. ?ts ! j / ?G * 100)"
      by (simp add: sum_divide_distrib sum_distrib_right)
    also have "\<dots> = (\<Sum>j\<le>i. total_monetary (?P ! j) / ?G * 100)"
      using i by (intro sum.cong) simp_all
    finally show ?thesis .
  qed
  have mono: "?cs ! i \<le> ?cs ! j" if "i \<le> j" and "j < length ?cs" for i j
  proof -
    from that have i: "i < length ?cs" by simp
    have "(\<Sum>k\<le>i. ?ts ! k / ?G * 100) \<le> (\<Sum>k\<le>j. ?ts ! k / ?G * 100)"
    proof (rule sum_mono2)
      show "finite {..j}" by simp
      show "{..i} \<subseteq> {..j}" using that by simp
      show "0 \<le> ?ts ! b / ?G * 100" if "b \<in> {..j} - {..i}" for b
      proof -
        from that \<open>j < length ?cs\<close> len have "b < length summary" by simp
        from ts_nonneg [OF this] Gpos show ?thesis by simp
      qed
    qed
    moreover have "?cs ! i = (\<Sum>k\<le>i. ?ts ! k / ?G * 100)"
      using nth [OF i] i len by (simp add: pareto_length)
    moreover have "?cs ! j = (\<Sum>k\<le>j. ?ts ! k / ?G * 100)"
      using nth [OF that(2)] that(2) len by (simp add: pareto_length)
    ultimately show ?thesis by simp
  qed
  have sorted: "sorted ?cs"
    using mono by (simp only: sorted_iff_nth_mono) blast
  have cs_ne: "?cs \<noteq> []" using ne len by auto
  have last: "last ?cs = 100"
  proof -
    let ?n = "length summary"
    have n: "?n - 1 < length ?ts" using ne by (simp add: pareto_length)
    have "last ?cs = ?cs ! (?n - 1)"
      using last_conv_nth [OF cs_ne] len by simp
    also have "\<dots> = cumsum ?ts ! (?n - 1) / ?G * 100"
      using n by (simp add: cumsum_def length_cumsum_from)
    also have "\<dots> = sum_list (take (Suc (?n - 1)) ?ts) / ?G * 100"
      using n by (simp only: cumsum_nth)
    also have "\<dots> = sum_list ?ts / ?G * 100"
      using ne by (simp add: pareto_length)
    also have "\<dots> = 100"
      using total by (simp add: pareto_sum)
    finally show ?thesis .
  qed
  have "map Cumulative_pct ?P = map Some ?cs"
    using total by (rule pareto_cumulative)
  with nth sorted cs_ne last have "\<exists>cs. map Cumulative_pct ?P = map Some cs \<and>
        (\<forall>i < length cs. cs ! i = (\<Sum>j\<le>i. total_monetary (?P ! j) / ?G * 100)) \<and>
        sorted cs \<and> cs \<noteq> [] \<and> last cs = 100"
    by blast
  with desc perm show ?thesis by blast
qed

text \<open>
  Claim C7, as the code has it. For a segment summary whose group totals are not
  negative and whose grand total is not zero, the Pareto frame lists the groups of the
  summary in descending order of \<open>total_monetary\<close>, every \<open>Cumulative_%\<close> is a number
  equal to the running sum of the unrounded shares \<open>total_monetary / grand_total * 100\<close>,
  the column does not decrease from row to row, and its last value is 100.
\<close>

theorem C7_pareto_cumulative:
  assumes "\<forall>s \<in> set (data_rfm_summary rfm). 0 \<le> total_monetary s"
    and "sum_list (map total_monetary (data_rfm_summary rfm)) \<noteq> 0"
  shows "sorted (rev (map total_monetary (pareto (data_rfm_summary rfm)))) \<and>
     mset (map (\<lambda>p. (s_Segment p, total_monetary p)) (pareto (data_rfm_summary rfm))) =
       mset (map (\<lambda>r. (s_Segment r, total_monetary r)) (data_rfm_summary rfm)) \<and>
     (\<exists>cs. map Cumulative_pct (pareto (data_rfm_summary rfm)) = map Some cs \<and>
        (\<forall>i < length cs. cs ! i =
           (\<Sum>j\<le>i. total_monetary (pareto (data_rfm_summary rfm) ! j) /
              sum_list (map total_monetary (data_rfm_summary rfm)) * 100)) \<and>
        sorted cs \<and> cs \<noteq> [] \<and> last cs = 100)"
  using assms by (rule pareto_cumulative_percent)

theorem C7_pareto_cumulative_witness:
  "map total_monetary (data_rfm_summary example_rfm) = [47 / 2, 207 / 2, 0] \<and>
   sum_list (map total_monetary (data_rfm_summary example_rfm)) = 127 \<and>
   map Cumulative_pct (pareto (data_rfm_summary example_rfm)) =
     [Some (10350 / 127), Some 100, Some 100] \<and>
   sorted (rev (map total_monetary (pareto (data_rfm_summary example_rfm)))) \<and>
   (\<exists>cs. map Cumulative_pct (pareto (data_rfm_summary example_rfm)) = map Some cs \<and>
      sorted cs \<and> cs \<noteq> [] \<and> last cs = 100)"
proof -
  have totals: "map total_monetary (data_rfm_summary example_rfm) = [47 / 2, 207 / 2, 0]"
    by (simp add: summary_example example_summary_def)
  have nonneg: "\<forall>s \<in> set (data_rfm_summary example_rfm). 0 \<le> total_monetary s"
    by (simp add: summary_example example_summary_def)
  have total: "sum_list (map total_monetary (data_rfm_summary example_rfm)) = 127"
    unfolding totals by simp
  then have nonzero: "sum_list (map total_monetary (data_rfm_summary example_rfm)) \<noteq> 0"
    by simp
  have cum: "map Cumulative_pct (pareto (data_rfm_summary example_rfm)) =
     [Some (10350 / 127), Some 100, Some 100]"
    unfolding summary_example by code_simp
  from C7_pareto_cumulative [OF nonneg nonzero] totals total cum show ?thesis
    by blast
qed

text \<open>
  The claim as stated fails on a non-empty summary whose grand total is 0: the division
  by the grand total gives \<^verbatim>\<open>NaN\<close>, so the last \<open>Cumulative_%\<close> is not 100.
\<close>

theorem C7_zero_total_counterexample:
  "df_rfm (data_orders example_zero_orders example_items) = Inr example_zero_rfm \<and>
   map total_monetary (pareto (data_rfm_summary example_zero_rfm)) = [0] \<and>
   map Cumulative_pct (pareto (data_rfm_summary example_zero_rfm)) = [None]"
  by code_simp

subsection \<open>Percent of the grand total\<close>

lemma rint_error: "\<bar>of_int (rint x) - x\<bar> \<le> 1 / 2"
proof -
  have "of_int \<lfloor>x\<rfloor> \<le> x" "x < of_int \<lfloor>x\<rfloor> + 1" by linarith+
  then show ?thesis
    by (auto simp: rint_def Let_def abs_le_iff)
qed

lemma rint_nonneg: "0 \<le> x \<Longrightarrow> 0 \<le> rint x"
  by (auto simp: rint_def Let_def)

lemma rint_le: "x \<le> of_int n \<Longrightarrow> rint x \<le> n"
proof -
  assume a: "x \<le> of_int n"
  have f: "\<lfloor>x\<rfloor> \<le> n" using a by (simp add: floor_le_iff) 
  show ?thesis
  proof (cases "\<lfloor>x\<rfloor> = n")
    case True
    then have "x - of_int \<lfloor>x\<rfloor> \<le> 0" using a by simp
    then show ?thesis using True by (simp add: rint_def Let_def)
  next
    case False
    with f have "\<lfloor>x\<rfloor> + 1 \<le> n" by simp
    then show ?thesis using f by (simp add: rint_def Let_def)
  qed
qed

lemma np_round_2_error: "\<bar>np_round x 2 - x\<bar> \<le> 1 / 200"
proof -
  have "\<bar>of_int (rint (x * 100)) - x * 100\<bar> \<le> 1 / 2" by (rule rint_error)
  then have "\<bar>(of_int (rint (x * 100)) - x * 100) / 100\<bar> \<le> (1 / 2) / 100"
    by (simp add: abs_le_iff)
  then show ?thesis
    by (simp add: np_round_def diff_divide_distrib)
qed

lemma np_round_2_range: "0 \<le> x \<Longrightarrow> x \<le> 100 \<Longrightarrow> 0 \<le> np_round x 2 \<and> np_round x 2 \<le> 100"
proof -
  assume a: "0 \<le> x" "x \<le> 100"
  have "0 \<le> rint (x * 100)" using a by (intro rint_nonneg) simp
  moreover have "rint (x * 100) \<le> 10000" using a by (intro rint_le) simp
  ultimately show ?thesis
    by (simp add: np_round_def)
qed

lemma np_round_2_cents: "\<exists>k::int. np_round x 2 = of_int k / 100"
  by (auto simp: np_round_def)

lemma sum_list_abs_diff:
  "length ps = length xs \<Longrightarrow> \<forall>i < length xs. \<bar>ps ! i - xs ! i\<bar> \<le> e \<Longrightarrow>
   \<bar>sum_list ps - sum_list xs\<bar> \<le> of_nat (length xs) * (e :: rat)"
proof (induction ps xs rule: list_induct2)
  case Nil
  then show ?case by simp
next
  case (Cons p ps x xs)
  from Cons.prems have hd: "\<bar>p - x\<bar> \<le> e" by auto
  from Cons.prems have "\<forall>i < length xs. \<bar>ps ! i - xs ! i\<bar> \<le> e" by auto
  then have tl: "\<bar>sum_list ps - sum_list xs\<bar> \<le> of_nat (length xs) * e" by (rule Cons.IH)
  have "\<bar>(p + sum_list ps) - (x + sum_list xs)\<bar> \<le> \<bar>p - x\<bar> + \<bar>sum_list ps - sum_list xs\<bar>"
    by linarith
  with hd tl show ?case by (simp add: algebra_simps)
qed

lemma shares_sum:
  assumes "sum_list ts \<noteq> (0 :: rat)"
  shows "sum_list (map (\<lambda>t. 100 * t / sum_list ts) ts) = 100"
proof -
  have "sum_list (map (\<lambda>t. 100 * t / G) ts) = 100 * sum_list ts / G" for G :: rat
    by (induction ts) (simp_all add: add_divide_distrib distrib_left)
  then show ?thesis using assms by simp
qed

text \<open>
  Claim C8, as the code has it. For a segment summary whose group totals are not
  negative and whose grand total is not zero, every \<open>total_monetary_percent\<close> is the
  share \<open>100 * total_monetary / grand_total\<close> rounded to two decimal places: a whole
  number of hundredths, at most 0.005 from the share, between 0 and 100. The column sums
  to 100 up to 0.01 per row.
\<close>

theorem C8_percent:
  assumes nonneg: "\<forall>s \<in> set (data_rfm_summary rfm). 0 \<le> total_monetary s"
    and total: "sum_list (map total_monetary (data_rfm_summary rfm)) \<noteq> 0"
  shows "\<exists>ps. map total_monetary_percent (data_rfm_summary rfm) = map Some ps \<and>
     (\<forall>i < length ps.
        ps ! i = np_round (100 * total_monetary (data_rfm_summary rfm ! i) /
                   sum_list (map total_monetary (data_rfm_summary rfm))) 2 \<and>
        (\<exists>k :: int. ps ! i = of_int k / 100) \<and>
        \<bar>ps ! i - 100 * total_monetary (data_rfm_summary rfm ! i) /
                   sum_list (map total_monetary (data_rfm_summary rfm))\<bar> \<le> 1 / 200 \<and>
        0 \<le> ps ! i \<and> ps ! i \<le> 100) \<and>
     \<bar>sum_list ps - 100\<bar> \<le> of_nat (length ps) * (1 / 100)"
proof -
  let ?S = "data_rfm_summary rfm"
  let ?ts = "map total_monetary ?S"
  let ?G = "sum_list ?ts"
  let ?xs = "map (\<lambda>t. 100 * t / ?G) ?ts"
  let ?ps = "map (\<lambda>x. np_round x 2) ?xs"
  have G: "total_monetary_all rfm = ?G" by (rule total_monetary_all_eq)
  have pct: "map total_monetary_percent ?S = map Some ?ps"
    unfolding summary_percent G using total by (simp add: np_div_def o_def algebra_simps)
  have "0 \<le> ?G" using nonneg by (intro sum_list_nonneg) auto
  with total have Gpos: "0 < ?G" by simp
  have share: "0 \<le> ?xs ! i \<and> ?xs ! i \<le> 100" if "i < length ?S" for i
  proof -
    from that have mem: "?S ! i \<in> set ?S" by simp
    with nonneg have t0: "0 \<le> total_monetary (?S ! i)" by blast
    have "total_monetary (?S ! i) \<le> ?G"
      using nonneg mem by (intro member_le_sum_list) auto
    with t0 Gpos show ?thesis using that by (simp add: divide_le_eq)
  qed
  have each: "?ps ! i = np_round (100 * total_monetary (?S ! i) / ?G) 2 \<and>
        (\<exists>k :: int. ?ps ! i = of_int k / 100) \<and>
        \<bar>?ps ! i - 100 * total_monetary (?S ! i) / ?G\<bar> \<le> 1 / 200 \<and>
        0 \<le> ?ps ! i \<and> ?ps ! i \<le> 100" if "i < length ?ps" for i
  proof -
    from that have i: "i < length ?S" by simp
    have p: "?ps ! i = np_round (100 * total_monetary (?S ! i) / ?G) 2"
      using i by simp
    have x: "?xs ! i = 100 * total_monetary (?S ! i) / ?G"
      using i by simp
    from share [OF i] have "0 \<le> np_round (?xs ! i) 2 \<and> np_round (?xs ! i) 2 \<le> 100"
      by (intro np_round_2_range) simp_all
    then show ?thesis
      unfolding p x using np_round_2_error np_round_2_cents by blast
  qed
  have "\<bar>sum_list ?ps - sum_list ?xs\<bar> \<le> of_nat (length ?xs) * (1 / 200)"
  proof (rule sum_list_abs_diff)
    show "length ?ps = length ?xs" by simp
    show "\<forall>i < length ?xs. \<bar>?ps ! i - ?xs ! i\<bar> \<le> 1 / 200"
      using np_round_2_error by simp
  qed
  moreover have "sum_list ?xs = 100" using total by (rule shares_sum)
  moreover have "of_nat (length ?xs) * (1 / 200) \<le> (of_nat (length ?ps) * (1 / 100) :: rat)"
    by simp
  ultimately have "\<bar>sum_list ?ps - 100\<bar> \<le> of_nat (length ?ps) * (1 / 100)"
    by linarith
  with pct each show ?thesis by blast
qed

theorem C8_percent_witness:
  "sum_list (map total_monetary (data_rfm_summary example_rfm)) = 127 \<and>
   map total_monetary_percent (data_rfm_summary example_rfm) =
     [Some (37 / 2), Some (163 / 2), Some 0] \<and>
   \<bar>sum_list [37 / 2, 163 / 2, 0] - 100\<bar> \<le> (3 * (1 / 100) :: rat) \<and>
   (\<exists>ps. map total_monetary_percent (data_rfm_summary example_rfm) = map Some ps \<and>
      \<bar>sum_list ps - 100\<bar> \<le> of_nat (length ps) * (1 / 100))"
proof -
  have nonneg: "\<forall>s \<in> set (data_rfm_summary example_rfm). 0 \<le> total_monetary s"
    by (simp add: summary_example example_summary_def)
  have total: "sum_list (map total_monetary (data_rfm_summary example_rfm)) = 127"
    by (simp add: summary_example example_summary_def)
  then have nonzero: "sum_list (map total_monetary (data_rfm_summary example_rfm)) \<noteq> 0"
    by simp
  have pct: "map total_monetary_percent (data_rfm_summary example_rfm) =
     [Some (37 / 2), Some (163 / 2), Some 0]"
    by (simp add: summary_example example_summary_def)
  have sum: "\<bar>sum_list [37 / 2, 163 / 2, 0] - 100\<bar> \<le> (3 * (1 / 100) :: rat)"
    by simp
  from C8_percent [OF nonneg nonzero] total pct sum show ?thesis
    by blast
qed

text \<open>
  The claim as stated fails on a non-empty summary whose grand total is 0: the
  percentage is \<^verbatim>\<open>NaN\<close>, not a number of \<open>[0, 100]\<close>.
\<close>

theorem C8_zero_total_counterexample:
  "df_rfm (data_orders example_zero_orders example_items) = Inr example_zero_rfm \<and>
   map total_monetary (data_rfm_summary example_zero_rfm) = [0] \<and>
   map total_monetary_percent (data_rfm_summary example_zero_rfm) = [None]"
  by code_simp

end
